theory Spec2Isabelle
  imports Main "HOL-Library.Word" "HOL-Library.Sublist"
begin

section \<open>Lease document analyzer: a model of \<^verbatim>\<open>document_analysis.py\<close>\<close>

text \<open>
  The script has three parts: the start-up guard on the API credential, the two functions
  \<^verbatim>\<open>analyze_lease_document\<close> and \<^verbatim>\<open>process_uploaded_file\<close>, and \<^verbatim>\<open>main\<close>, which wires
  them to the page. Everything the script does to the outside (widgets and messages of the
  page, the request to the completion service) is recorded, in order, in a list of events
  that each function returns beside its result. What the outside does to the script (the
  environment variable, the image decoder, the completion service, the user's input) is a
  field of the record \<open>environment\<close>.
\<close>

subsection \<open>Python values and exceptions\<close>

type_synonym byte = "8 word"

text \<open>
  The arguments of \<^verbatim>\<open>analyze_lease_document\<close> are untyped in the source, so they are
  Python values: \<^verbatim>\<open>None\<close>, a \<^verbatim>\<open>str\<close>, a \<^verbatim>\<open>bytes\<close> or an \<^verbatim>\<open>int\<close>.
\<close>

datatype py_value = PyNone | PyStr string | PyBytes "byte list" | PyInt int

text \<open>
  A raised exception: whether its class derives from \<^verbatim>\<open>Exception\<close> (what
  \<^verbatim>\<open>except Exception\<close> tests; \<^verbatim>\<open>KeyboardInterrupt\<close> and \<^verbatim>\<open>SystemExit\<close> do not), the
  name of the class, and \<^verbatim>\<open>str(e)\<close>.
\<close>

datatype py_exception =
  PyExc (derives_Exception: bool) (class_name: string) (exc_str: string)

text \<open>Python's truth test, as \<^verbatim>\<open>if x:\<close> applies it.\<close>

fun py_truthy :: "py_value \<Rightarrow> bool" where
  "py_truthy PyNone = False"
| "py_truthy (PyStr s) = (s \<noteq> [])"
| "py_truthy (PyBytes bs) = (bs \<noteq> [])"
| "py_truthy (PyInt i) = (i \<noteq> 0)"

text \<open>The name of a value's type, as it appears in the messages of Python's errors.\<close>

fun type_name :: "py_value \<Rightarrow> string" where
  "type_name PyNone = ''NoneType''"
| "type_name (PyStr s) = ''str''"
| "type_name (PyBytes bs) = ''bytes''"
| "type_name (PyInt i) = ''int''"

subsection \<open>Base64\<close>

text \<open>
  \<^verbatim>\<open>base64.b64encode\<close> of the standard library (RFC 4648, section 4): three bytes are a
  24-bit number written as four 6-bit digits; one or two bytes left over are padded with
  zero bits and \<^verbatim>\<open>=\<close>. The result is ASCII, so the \<^verbatim>\<open>.decode('utf-8')\<close> that follows in the
  source maps each byte to the same character and cannot fail; \<open>b64encode\<close> gives the
  characters directly.
\<close>

definition b64_alphabet :: string where
  "b64_alphabet = ''ABCDEFGHIJKLMNOPQRSTUVWXYZabcdefghijklmnopqrstuvwxyz0123456789+/''"

definition b64_char :: "nat \<Rightarrow> char" where
  "b64_char i = b64_alphabet ! i"

fun b64encode :: "byte list \<Rightarrow> string" where
  "b64encode [] = []"
| "b64encode [a] =
     (let n = unat a * 16
      in [b64_char (n div 64), b64_char (n mod 64), CHR ''='', CHR ''=''])"
| "b64encode [a, b] =
     (let n = (unat a * 256 + unat b) * 4
      in [b64_char (n div 4096), b64_char (n div 64 mod 64), b64_char (n mod 64), CHR ''=''])"
| "b64encode (a # b # c # rest) =
     (let n = unat a * 65536 + unat b * 256 + unat c
      in [b64_char (n div 262144), b64_char (n div 4096 mod 64),
          b64_char (n div 64 mod 64), b64_char (n mod 64)] @ b64encode rest)"

text \<open>
  The decoder is not part of the script; it is the inverse that the round-trip property is
  stated with. It accepts the alphabet and padding in the last group only, as
  \<^verbatim>\<open>base64.b64decode\<close> does on such strings.
\<close>

fun index_of :: "char \<Rightarrow> string \<Rightarrow> nat option" where
  "index_of c [] = None"
| "index_of c (x # xs) =
     (if c = x then Some 0 else map_option Suc (index_of c xs))"

definition b64_index :: "char \<Rightarrow> nat option" where
  "b64_index c = index_of c b64_alphabet"

fun b64decode :: "string \<Rightarrow> byte list option" where
  "b64decode [] = Some []"
| "b64decode (c0 # c1 # c2 # c3 # rest) =
     (if rest = [] \<and> c3 = CHR ''='' then
        (if c2 = CHR ''='' then
           (case (b64_index c0, b64_index c1) of
              (Some i0, Some i1) \<Rightarrow> Some [word_of_nat ((i0 * 64 + i1) div 16)]
            | _ \<Rightarrow> None)
         else
           (case (b64_index c0, b64_index c1, b64_index c2) of
              (Some i0, Some i1, Some i2) \<Rightarrow>
                (let n = (i0 * 4096 + i1 * 64 + i2) div 4
                 in Some [word_of_nat (n div 256), word_of_nat n])
            | _ \<Rightarrow> None))
      else
        (case (b64_index c0, b64_index c1, b64_index c2, b64_index c3) of
           (Some i0, Some i1, Some i2, Some i3) \<Rightarrow>
             (let n = i0 * 262144 + i1 * 4096 + i2 * 64 + i3
              in map_option
                   (\<lambda>bs. word_of_nat (n div 65536) # word_of_nat (n div 256) # word_of_nat n # bs)
                   (b64decode rest))
         | _ \<Rightarrow> None))"
| "b64decode _ = None"



subsection \<open>Requests, responses and events\<close>

text \<open>
  The keyword arguments of \<^verbatim>\<open>client.chat.completions.create\<close>: the model name, the
  messages (each a role and a list of content parts) and \<^verbatim>\<open>max_tokens\<close>.
\<close>

datatype content_part = TextPart string | ImageUrlPart string

datatype chat_message = ChatMessage (role: string) (content: "content_part list")

record request =
  model :: string
  messages :: "chat_message list"
  max_tokens :: nat

text \<open>
  The response, as far as the script reads it: \<^verbatim>\<open>response.choices[0].message.content\<close>,
  which the client library types as an optional string.
\<close>

datatype completion_message = CompletionMessage (message_content: "string option")

datatype choice = Choice (message: completion_message)

datatype chat_completion = ChatCompletion (choices: "choice list")

text \<open>
  The client object of the client library: the credential it was built with and the
  number of times it sends a failed request again. \<^verbatim>\<open>OpenAI(api_key=...)\<close> passes no
  \<^verbatim>\<open>max_retries\<close>, so the client has the library's default of two.
\<close>

datatype openai_client = Client (api_key: string) (max_retries: nat)

definition OpenAI :: "string \<Rightarrow> openai_client" where
  "OpenAI key = Client key 2"

text \<open>An image as \<^verbatim>\<open>Image.open\<close> returns it; the script only passes it on to the page.\<close>

datatype pil_image = PILImage (image_format: string) (image_size: "nat \<times> nat")

text \<open>
  One event for each call of the page runtime (\<^verbatim>\<open>st.title\<close>, \<^verbatim>\<open>st.error\<close>, ...), one
  \<open>RemoteCall\<close> for each call of \<^verbatim>\<open>client.chat.completions.create\<close>, with the client and
  the request it is given, and one \<open>HttpPost\<close> for each time the client library sends
  that request to the service.
\<close>

datatype event =
    StTitle string
  | StWrite string
  | StWarning string
  | StError string
  | StRadio string "string list"
  | StFileUploader string "string list"
  | StCameraInput string
  | StImage pil_image string bool
  | StSpinner string
  | StSuccess string
  | StMarkdown py_value
  | RemoteCall openai_client request
  | HttpPost openai_client request

text \<open>
  An uploaded file is a byte buffer with a read position and the content type that the
  browser declared.
\<close>

record uploaded_file =
  getvalue :: "byte list"
  file_type :: string
  position :: nat

text \<open>
  What happens to one sending of a request: the service answers; or the sending fails in
  a way that the client library tries again (no connection, a timeout, status 408, 409,
  429 or 5xx); or it fails for good (a refused credential, a malformed request, an
  interrupt). A failure carries the exception that the library raises for it.
\<close>

datatype attempt =
    Response chat_completion
  | RetryableError py_exception
  | FinalError py_exception

text \<open>
  The outside of the script: the process environment as \<^verbatim>\<open>os.getenv\<close> reads it after
  \<^verbatim>\<open>load_dotenv()\<close>; the image library's \<^verbatim>\<open>Image.open\<close> on the bytes it is given, which
  reads the header only; \<^verbatim>\<open>st.image\<close>, which reads the pixel data and so can still raise
  (\<open>None\<close> when the image is shown); the completion service, by the outcome of the
  \<open>i\<close>-th sending of a request; and what the user did on the page (the option chosen in
  the radio group, the file in the uploader, the picture taken by the camera).
\<close>

record environment =
  os_getenv :: "string \<Rightarrow> string option"
  image_open :: "byte list \<Rightarrow> py_exception + pil_image"
  st_image :: "pil_image \<Rightarrow> py_exception option"
  http_post :: "openai_client \<Rightarrow> request \<Rightarrow> nat \<Rightarrow> attempt"
  radio :: string
  file_uploader :: "uploaded_file option"
  camera_input :: "uploaded_file option"

fun remote_requests :: "event list \<Rightarrow> request list" where
  "remote_requests [] = []"
| "remote_requests (RemoteCall c r # es) = r # remote_requests es"
| "remote_requests (e # es) = remote_requests es"

fun http_posts :: "event list \<Rightarrow> request list" where
  "http_posts [] = []"
| "http_posts (HttpPost c r # es) = r # http_posts es"
| "http_posts (e # es) = http_posts es"

fun errors_shown :: "event list \<Rightarrow> string list" where
  "errors_shown [] = []"
| "errors_shown (StError m # es) = m # errors_shown es"
| "errors_shown (e # es) = errors_shown es"

fun is_result_event :: "event \<Rightarrow> bool" where
  "is_result_event (StSuccess m) = True"
| "is_result_event (StMarkdown v) = True"
| "is_result_event e = False"

subsection \<open>The analysis client\<close>

definition prompt :: string where
  "prompt = concat
     [
      [CHR 0x0A],
      ''        You are an expert paralegal specializing in Massachusetts landlord-tenant law.'' @ [CHR 0x0A],
      ''        Your task is to analyze the provided lease agreement and identify any clauses'' @ [CHR 0x0A],
      ''        that are illegal or unenforceable under Massachusetts General Laws.'' @ [CHR 0x0A],
      [CHR 0x0A],
      ''        Please carefully review the document and list any problematic clauses.'' @ [CHR 0x0A],
      ''        For each illegal clause you find, provide the following:'' @ [CHR 0x0A],
      ''        1.  **Clause Identification**: Quote the exact illegal phrase or sentence from the lease.'' @ [CHR 0x0A],
      ''        2.  **Explanation**: Clearly explain in simple, non-legal language why the clause is illegal in Massachusetts.'' @ [CHR 0x0A],
      ''        3.  **Legal Reference**: Cite the specific Massachusetts General Law (MGL) chapter and section that makes the clause illegal.'' @ [CHR 0x0A],
      [CHR 0x0A],
      ''        Common illegal clauses to look for in Massachusetts include, but are not limited to:'' @ [CHR 0x0A],
      ''        - Requiring a tenant to pay for all repairs, regardless of fault.'' @ [CHR 0x0A],
      ''        - Waiving the tenant'' @ [CHR 0x27] @ ''s right to a jury trial.'' @ [CHR 0x0A],
      ''        - Requiring the tenant to pay for utility costs for common areas without a separate meter.'' @ [CHR 0x0A],
      ''        - Imposing a penalty for late rent that exceeds what is allowed by law (MGL c. 186, s. 15B).'' @ [CHR 0x0A],
      ''        - Allowing the landlord to enter the premises without reasonable notice.'' @ [CHR 0x0A],
      ''        - Requiring the tenant to pay rent in advance for more than the first month and a security deposit.'' @ [CHR 0x0A],
      [CHR 0x0A],
      ''        If you do not find any illegal clauses, please state that '' @ [CHR 0x22] @ ''Based on this analysis, no illegal clauses were identified in the document.'' @ [CHR 0x22] @ [CHR 0x0A],
      [CHR 0x0A],
      ''        Present your findings in a clear, organized format using markdown.'' @ [CHR 0x0A],
      ''        '']"

definition guidance :: string where
  "guidance = ''This tool currently only supports image files (JPEG, PNG). Please upload an image of your lease.''"

text \<open>
  What \<^verbatim>\<open>mime_type.startswith("image/")\<close> raises when \<^verbatim>\<open>mime_type\<close> is not a \<^verbatim>\<open>str\<close>:
  \<^verbatim>\<open>bytes.startswith\<close> refuses a \<^verbatim>\<open>str\<close> argument with a TypeError; \<^verbatim>\<open>None\<close> and an
  \<^verbatim>\<open>int\<close> have no such attribute.
\<close>

fun startswith_error :: "py_value \<Rightarrow> py_exception" where
  "startswith_error (PyBytes bs) =
     PyExc True ''TypeError''
       ''startswith first arg must be bytes or a tuple of bytes, not str''"
| "startswith_error v =
     PyExc True ''AttributeError''
       ([CHR 0x27] @ type_name v @ [CHR 0x27] @ '' object has no attribute ''
        @ [CHR 0x27] @ ''startswith'' @ [CHR 0x27])"

text \<open>\<^verbatim>\<open>base64.b64encode(file_bytes).decode('utf-8')\<close>: anything but bytes is a TypeError.\<close>

fun b64encode_value :: "py_value \<Rightarrow> py_exception + string" where
  "b64encode_value (PyBytes bs) = Inr (b64encode bs)"
| "b64encode_value v =
     Inl (PyExc True ''TypeError''
            (''a bytes-like object is required, not '' @ [CHR 0x27] @ type_name v @ [CHR 0x27]))"

text \<open>The f-string \<^verbatim>\<open>f"data:{mime_type};base64,{base64_image}"\<close>, on two strings.\<close>

definition data_url :: "string \<Rightarrow> string \<Rightarrow> string" where
  "data_url mime_type base64_image = ''data:'' @ mime_type @ '';base64,'' @ base64_image"

definition build_request :: "string \<Rightarrow> string \<Rightarrow> request" where
  "build_request mime_type base64_image =
     \<lparr>model = ''gpt-5-nano'',
      messages =
        [ChatMessage ''user''
           [TextPart prompt, ImageUrlPart (data_url mime_type base64_image)]],
      max_tokens = 2000\<rparr>"

text \<open>
  \<^verbatim>\<open>client.chat.completions.create\<close> belongs to the client library, not to the script.
  It sends the request; after a failure that can be retried it sends it again while
  retries are left, and raises the last failure when none is; any other outcome ends the
  call at once. \<open>request_loop\<close> gives the outcome of the call and the number of sendings;
  the second argument counts the retries left and the third the sendings so far.
\<close>

fun request_loop ::
  "(nat \<Rightarrow> attempt) \<Rightarrow> nat \<Rightarrow> nat \<Rightarrow> (py_exception + chat_completion) \<times> nat"
where
  "request_loop post 0 i =
     (case post i of
        Response r \<Rightarrow> (Inr r, Suc i)
      | RetryableError e \<Rightarrow> (Inl e, Suc i)
      | FinalError e \<Rightarrow> (Inl e, Suc i))"
| "request_loop post (Suc retries_left) i =
     (case post i of
        Response r \<Rightarrow> (Inr r, Suc i)
      | RetryableError e \<Rightarrow> request_loop post retries_left (Suc i)
      | FinalError e \<Rightarrow> (Inl e, Suc i))"

definition chat_completions_create ::
  "environment \<Rightarrow> openai_client \<Rightarrow> request \<Rightarrow> py_exception + chat_completion"
where
  "chat_completions_create env client req =
     fst (request_loop (http_post env client req) (max_retries client) 0)"

definition transmissions :: "environment \<Rightarrow> openai_client \<Rightarrow> request \<Rightarrow> nat" where
  "transmissions env client req =
     snd (request_loop (http_post env client req) (max_retries client) 0)"

text \<open>The events of one call: the call itself, then each sending of the request.\<close>

definition call_events :: "environment \<Rightarrow> openai_client \<Rightarrow> request \<Rightarrow> event list" where
  "call_events env client req =
     RemoteCall client req # replicate (transmissions env client req) (HttpPost client req)"

text \<open>\<^verbatim>\<open>response.choices[0].message.content\<close>; an empty list of choices is an IndexError.\<close>

fun first_content :: "chat_completion \<Rightarrow> py_exception + py_value" where
  "first_content (ChatCompletion []) =
     Inl (PyExc True ''IndexError'' ''list index out of range'')"
| "first_content (ChatCompletion (c # cs)) =
     (case message_content (message c) of
        None \<Rightarrow> Inr PyNone
      | Some s \<Rightarrow> Inr (PyStr s))"

text \<open>
  The body of the \<^verbatim>\<open>try\<close> statement: its result or the exception it raises, and the events
  up to there.
\<close>

definition analyze_try ::
  "environment \<Rightarrow> openai_client \<Rightarrow> py_value \<Rightarrow> py_value \<Rightarrow> (py_exception + py_value) \<times> event list"
where
  "analyze_try env client file_bytes mime_type =
     (case mime_type of
        PyStr m \<Rightarrow>
          (if \<not> prefix ''image/'' m then (Inr (PyStr guidance), [])
           else
             (case b64encode_value file_bytes of
                Inl e \<Rightarrow> (Inl e, [])
              | Inr base64_image \<Rightarrow>
                  (let req = build_request m base64_image
                   in (case chat_completions_create env client req of
                         Inl e \<Rightarrow> (Inl e, call_events env client req)
                       | Inr response \<Rightarrow> (first_content response, call_events env client req)))))
      | _ \<Rightarrow> (Inl (startswith_error mime_type), []))"

text \<open>
  \<^verbatim>\<open>except Exception as e\<close>: an exception of a class that derives from \<^verbatim>\<open>Exception\<close> is
  reported with \<^verbatim>\<open>st.error\<close> and the function returns \<^verbatim>\<open>None\<close>; any other leaves the
  function.
\<close>

definition analyze_lease_document ::
  "environment \<Rightarrow> openai_client \<Rightarrow> py_value \<Rightarrow> py_value \<Rightarrow> (py_exception + py_value) \<times> event list"
where
  "analyze_lease_document env client file_bytes mime_type =
     (case analyze_try env client file_bytes mime_type of
        (Inl e, tr) \<Rightarrow>
          (if derives_Exception e
           then (Inr PyNone, tr @ [StError (''An error occurred during analysis: '' @ exc_str e)])
           else (Inl e, tr))
      | (Inr v, tr) \<Rightarrow> (Inr v, tr))"

subsection \<open>Normalising the upload\<close>

text \<open>
  \<^verbatim>\<open>uploaded_file.seek(0)\<close>, then \<^verbatim>\<open>Image.open\<close> reads from the read position. An exception
  of the decoder that derives from \<^verbatim>\<open>Exception\<close> is dropped and the preview stays
  \<^verbatim>\<open>None\<close>.
\<close>

definition seek :: "uploaded_file \<Rightarrow> nat \<Rightarrow> uploaded_file" where
  "seek f n = f\<lparr>position := n\<rparr>"

definition Image_open :: "environment \<Rightarrow> uploaded_file \<Rightarrow> py_exception + pil_image" where
  "Image_open env f = image_open env (drop (position f) (getvalue f))"

definition process_uploaded_file ::
  "environment \<Rightarrow> uploaded_file \<Rightarrow> py_exception + (byte list \<times> string \<times> pil_image option)"
where
  "process_uploaded_file env uploaded_file =
     (let file_bytes = getvalue uploaded_file;
          mime_type = file_type uploaded_file
      in (case Image_open env (seek uploaded_file 0) of
            Inr preview_image \<Rightarrow> Inr (file_bytes, mime_type, Some preview_image)
          | Inl e \<Rightarrow>
              (if derives_Exception e then Inr (file_bytes, mime_type, None) else Inl e)))"

subsection \<open>The page\<close>

definition disclaimer :: string where
  "disclaimer = concat
     [
      [CHR 0x0A],
      ''        **Disclaimer:** This tool provides an automated analysis and does not constitute legal advice.'' @ [CHR 0x0A],
      ''        The information provided may not be complete or accurate. You should consult with a qualified'' @ [CHR 0x0A],
      ''        legal professional for advice on your specific situation.'' @ [CHR 0x0A],
      ''        '']"

definition page_header :: "event list" where
  "page_header =
     [StTitle ''Massachusetts Lease Agreement Analyzer'',
      StWrite ''This tool helps identify potentially illegal clauses in a Massachusetts residential lease agreement that may be harmful to tenants.'',
      StWrite ''Upload a clear image (JPEG/PNG) of your lease pages, or use your camera to capture them.'',
      StWarning disclaimer,
      StRadio ''Choose input method:'' [''Upload an Image File'', ''Use Camera'']]"

text \<open>The widget that \<^verbatim>\<open>main\<close> shows for the chosen input method, and the file it returns.\<close>

definition input_widget :: "environment \<Rightarrow> event \<times> uploaded_file option" where
  "input_widget env =
     (if radio env = ''Upload an Image File''
      then (StFileUploader ''Choose an image file'' [''jpg'', ''jpeg'', ''png''], file_uploader env)
      else (StCameraInput ''Take a picture of the lease page'', camera_input env))"

definition show_analysis :: "py_value \<Rightarrow> event list" where
  "show_analysis analysis_result =
     (if py_truthy analysis_result
      then [StSuccess ''Analysis Complete'', StMarkdown analysis_result]
      else [])"

text \<open>
  \<^verbatim>\<open>main\<close>. Its calls of \<^verbatim>\<open>process_uploaded_file\<close>, \<^verbatim>\<open>st.image\<close> and
  \<^verbatim>\<open>analyze_lease_document\<close> are outside any \<^verbatim>\<open>try\<close>, so an exception that one of them
  raises leaves \<^verbatim>\<open>main\<close>, with the events up to there.
\<close>

definition main :: "environment \<Rightarrow> openai_client \<Rightarrow> (py_exception + unit) \<times> event list" where
  "main env client =
     (let (widget, uploaded) = input_widget env;
          tr0 = page_header @ [widget]
      in (case uploaded of
            None \<Rightarrow> (Inr (), tr0)
          | Some uploaded_file \<Rightarrow>
              (case process_uploaded_file env uploaded_file of
                 Inl e \<Rightarrow> (Inl e, tr0)
               | Inr (file_bytes, mime_type, None) \<Rightarrow>
                   (Inr (),
                    tr0 @ [StError ''Could not process the uploaded file. Please ensure it is a valid image.''])
               | Inr (file_bytes, mime_type, Some preview_image) \<Rightarrow>
                   (case st_image env preview_image of
                      Some e \<Rightarrow> (Inl e, tr0)
                    | None \<Rightarrow>
                        (let tr1 = tr0 @ [StImage preview_image ''Image to be Analyzed'' True,
                                          StSpinner ''Analyzing your lease document... This may take a moment.'']
                         in (case analyze_lease_document env client (PyBytes file_bytes)
                                    (PyStr mime_type) of
                               (Inl e, tr) \<Rightarrow> (Inl e, tr1 @ tr)
                             | (Inr analysis_result, tr) \<Rightarrow>
                                 (Inr (), tr1 @ tr @ show_analysis analysis_result)))))))"

subsection \<open>The script\<close>

text \<open>
  The module level: the credential is read from the environment; when it is \<^verbatim>\<open>None\<close> or
  empty the script reports it and \<^verbatim>\<open>st.stop()\<close> ends the run. Otherwise the client is
  built from the credential and \<^verbatim>\<open>main\<close> runs.
\<close>

datatype script_end = Completed | Stopped | Uncaught py_exception

definition key_missing_message :: string where
  "key_missing_message =
     ''OpenAI API key not found. Please set the '' @ [CHR 0x27] @ ''OPENAI_API_KEY'' @ [CHR 0x27]
     @ '' environment variable.''"

definition script :: "environment \<Rightarrow> script_end \<times> event list" where
  "script env =
     (case os_getenv env ''OPENAI_API_KEY'' of
        None \<Rightarrow> (Stopped, [StError key_missing_message])
      | Some OPENAI_API_KEY \<Rightarrow>
          (if OPENAI_API_KEY = [] then (Stopped, [StError key_missing_message])
           else (case main env (OpenAI OPENAI_API_KEY) of
                   (Inl e, tr) \<Rightarrow> (Uncaught e, tr)
                 | (Inr u, tr) \<Rightarrow> (Completed, tr))))"


subsection \<open>Reading a request back\<close>

text \<open>
  What an observer of the outgoing request sees: the image URLs of its messages, and
  the payload of a URL, which is what follows the header \<^verbatim>\<open>data:<type>;base64,\<close>.
\<close>

fun part_urls :: "content_part list \<Rightarrow> string list" where
  "part_urls [] = []"
| "part_urls (ImageUrlPart u # ps) = u # part_urls ps"
| "part_urls (TextPart t # ps) = part_urls ps"

definition image_urls :: "request \<Rightarrow> string list" where
  "image_urls req = concat (map (\<lambda>msg. part_urls (content msg)) (messages req))"

definition data_url_payload :: "string \<Rightarrow> string \<Rightarrow> string option" where
  "data_url_payload mime_type url =
     (let header = ''data:'' @ mime_type @ '';base64,''
      in if prefix header url then Some (drop (length header) url) else None)"

definition decoded_images :: "string \<Rightarrow> request \<Rightarrow> byte list option list" where
  "decoded_images mime_type req =
     map (\<lambda>url. case data_url_payload mime_type url of
                  None \<Rightarrow> None
                | Some payload \<Rightarrow> b64decode payload)
       (image_urls req)"

subsection \<open>Sample environments\<close>

text \<open>
  Concrete surroundings on which the model is run: a decoder that accepts what starts
  with the PNG signature; a page that can show every image and one that cannot; a service
  that answers, one that cannot be reached, one that refuses the credential, one that is
  interrupted and one that answers with the empty string; and uploads of a PNG and of
  random bytes.
\<close>

definition png_signature :: "byte list" where
  "png_signature = [0x89, 0x50, 0x4E, 0x47, 0x0D, 0x0A, 0x1A, 0x0A]"

definition sample_open :: "byte list \<Rightarrow> py_exception + pil_image" where
  "sample_open bs =
     (if take 8 bs = png_signature then Inr (PILImage ''PNG'' (10, 10))
      else Inl (PyExc True ''UnidentifiedImageError'' ''cannot identify image file''))"

definition showing_image :: "pil_image \<Rightarrow> py_exception option" where
  "showing_image img = None"

definition truncated_image :: "pil_image \<Rightarrow> py_exception option" where
  "truncated_image img = Some (PyExc True ''OSError'' ''image file is truncated'')"

definition sample_getenv :: "string \<Rightarrow> string option" where
  "sample_getenv name = (if name = ''OPENAI_API_KEY'' then Some ''sk-test'' else None)"

definition empty_getenv :: "string \<Rightarrow> string option" where
  "empty_getenv name = None"

definition no_clauses_reply :: string where
  "no_clauses_reply =
     ''Based on this analysis, no illegal clauses were identified in the document.''"

definition answering_post :: "openai_client \<Rightarrow> request \<Rightarrow> nat \<Rightarrow> attempt" where
  "answering_post client req i =
     Response (ChatCompletion [Choice (CompletionMessage (Some no_clauses_reply))])"

definition failing_post :: "openai_client \<Rightarrow> request \<Rightarrow> nat \<Rightarrow> attempt" where
  "failing_post client req i =
     RetryableError (PyExc True ''APIConnectionError'' ''Connection error.'')"

definition refusing_post :: "openai_client \<Rightarrow> request \<Rightarrow> nat \<Rightarrow> attempt" where
  "refusing_post client req i =
     FinalError (PyExc True ''AuthenticationError'' ''Error code: 401'')"

definition interrupted_post :: "openai_client \<Rightarrow> request \<Rightarrow> nat \<Rightarrow> attempt" where
  "interrupted_post client req i = FinalError (PyExc False ''KeyboardInterrupt'' [])"

definition silent_post :: "openai_client \<Rightarrow> request \<Rightarrow> nat \<Rightarrow> attempt" where
  "silent_post client req i = Response (ChatCompletion [Choice (CompletionMessage (Some []))])"

definition png_upload :: uploaded_file where
  "png_upload = \<lparr>getvalue = png_signature @ [0, 0, 0, 13], file_type = ''image/png'', position = 0\<rparr>"

definition corrupted_upload :: uploaded_file where
  "corrupted_upload =
     \<lparr>getvalue = [0xDE, 0xAD, 0xBE, 0xEF, 0x01], file_type = ''image/png'', position = 0\<rparr>"

definition sample_env :: environment where
  "sample_env =
     \<lparr>os_getenv = sample_getenv,
      image_open = sample_open,
      st_image = showing_image,
      http_post = answering_post,
      radio = ''Upload an Image File'',
      file_uploader = Some png_upload,
      camera_input = None\<rparr>"

definition corrupted_env :: environment where
  "corrupted_env = sample_env\<lparr>file_uploader := Some corrupted_upload\<rparr>"

definition truncated_env :: environment where
  "truncated_env = sample_env\<lparr>st_image := truncated_image\<rparr>"

definition failing_env :: environment where
  "failing_env = sample_env\<lparr>http_post := failing_post\<rparr>"

definition refusing_env :: environment where
  "refusing_env = sample_env\<lparr>http_post := refusing_post\<rparr>"

definition interrupted_env :: environment where
  "interrupted_env = sample_env\<lparr>http_post := interrupted_post\<rparr>"

definition silent_env :: environment where
  "silent_env = sample_env\<lparr>http_post := silent_post\<rparr>"

definition no_key_env :: environment where
  "no_key_env = sample_env\<lparr>os_getenv := empty_getenv\<rparr>"

definition sample_client :: openai_client where
  "sample_client = OpenAI ''sk-test''"

section \<open>Properties\<close>

subsection \<open>Base64 decoding inverts encoding\<close>

lemma index_of_nth: "distinct xs \<Longrightarrow> i < length xs \<Longrightarrow> index_of (xs ! i) xs = Some i"
proof (induction xs arbitrary: i)
  case Nil then show ?case by simp
next
  case (Cons x xs)
  show ?case
  proof (cases i)
    case 0 then show ?thesis by simp
  next
    case (Suc j)
    with Cons.prems have "j < length xs" "distinct xs" "xs ! j \<noteq> x"
      by auto
    with Cons.IH Suc show ?thesis by simp
  qed
qed

lemma length_b64_alphabet: "length b64_alphabet = 64"
  by (simp add: b64_alphabet_def)

lemma distinct_b64_alphabet: "distinct b64_alphabet"
  by (simp add: b64_alphabet_def)

lemma pad_notin_alphabet: "CHR ''='' \<notin> set b64_alphabet"
  by (simp add: b64_alphabet_def)

lemma b64_index_char: "i < 64 \<Longrightarrow> b64_index (b64_char i) = Some i"
  by (simp add: b64_index_def b64_char_def index_of_nth distinct_b64_alphabet length_b64_alphabet)

lemma b64_char_not_pad: "i < 64 \<Longrightarrow> b64_char i \<noteq> CHR ''=''"
proof -
  assume "i < 64"
  then have "b64_alphabet ! i \<in> set b64_alphabet"
    by (simp add: length_b64_alphabet)
  with pad_notin_alphabet show ?thesis
    by (auto simp: b64_char_def)
qed

lemma sextets_of_24: "(n::nat) div 262144 * 262144 + n div 4096 mod 64 * 4096 + n div 64 mod 64 * 64 + n mod 64 = n"
proof -
  have a: "n div 4096 = n div 64 div 64" and b: "n div 262144 = n div 64 div 64 div 64"
    by (simp_all add: div_mult2_eq[symmetric])
  have "n = n div 64 * 64 + n mod 64" by simp
  moreover have "n div 64 = n div 64 div 64 * 64 + n div 64 mod 64" by simp
  moreover have "n div 64 div 64 = n div 64 div 64 div 64 * 64 + n div 64 div 64 mod 64" by simp
  ultimately show ?thesis unfolding a b by linarith
qed

lemma byte_word_eq: "(word_of_nat m :: byte) = w \<longleftrightarrow> m mod 256 = unat w"
proof -
  have "(word_of_nat m :: byte) = w \<longleftrightarrow> take_bit 8 m = take_bit 8 (unat w)"
    using word_of_nat_eq_iff [where 'a = 8, of m "unat w"] by simp
  moreover have "take_bit 8 (unat w) = unat w"
    using unsigned_less [of w] by (simp add: take_bit_nat_eq_self_iff)
  ultimately show ?thesis by (simp add: take_bit_eq_mod)
qed

lemma unat_byte_less: "unat (w :: byte) < 256"
  using unsigned_less [of w] by simp

lemma div_mod_step:
  fixes c k m :: nat
  assumes "c < k"
  shows "(m * k + c) div k = m" "(m * k + c) mod k = c"
  using assms by simp_all

lemma decode_triple:
  fixes a b c :: nat
  assumes "a < 256" "b < 256" "c < 256"
  shows "(a * 65536 + b * 256 + c) div 65536 mod 256 = a"
    "(a * 65536 + b * 256 + c) div 256 mod 256 = b"
    "(a * 65536 + b * 256 + c) mod 256 = c"
proof -
  have e: "a * 65536 + b * 256 + c = (a * 256 + b) * 256 + c"
    by simp
  have f: "a * 65536 + b * 256 + c = a * 65536 + (b * 256 + c)"
    by simp
  have "b * 256 + c < 65536"
    using assms by linarith
  then show "(a * 65536 + b * 256 + c) div 65536 mod 256 = a"
    unfolding f using assms by simp
  have "((a * 256 + b) * 256 + c) div 256 = a * 256 + b"
    using assms(3) by (rule div_mod_step(1))
  then have "(a * 65536 + b * 256 + c) div 256 = a * 256 + b"
    by (simp only: e)
  then show "(a * 65536 + b * 256 + c) div 256 mod 256 = b"
    using assms by simp
  have "((a * 256 + b) * 256 + c) mod 256 = c"
    using assms(3) by (rule div_mod_step(2))
  then show "(a * 65536 + b * 256 + c) mod 256 = c"
    by (simp only: e)
qed

lemma decode_pair:
  fixes a b :: nat
  assumes "a < 256" "b < 256"
  shows "(a * 256 + b) * 4 div 4 div 256 mod 256 = a"
    "(a * 256 + b) * 4 div 4 mod 256 = b"
  using assms by simp_all

lemma decode_single:
  fixes a :: nat
  assumes "a < 256"
  shows "a * 16 div 16 mod 256 = a"
  using assms by simp_all

lemma sextets_of_18: "(n::nat) div 4096 * 4096 + n div 64 mod 64 * 64 + n mod 64 = n"
proof -
  have a: "n div 4096 = n div 64 div 64"
    by (simp_all add: div_mult2_eq[symmetric])
  have "n = n div 64 * 64 + n mod 64" by simp
  moreover have "n div 64 = n div 64 div 64 * 64 + n div 64 mod 64" by simp
  ultimately show ?thesis unfolding a by linarith
qed

lemma decode_quad:
  assumes "n < 16777216"
  shows "b64decode (b64_char (n div 262144) # b64_char (n div 4096 mod 64) #
           b64_char (n div 64 mod 64) # b64_char (n mod 64) # rest) =
         map_option (\<lambda>bs. word_of_nat (n div 65536) # word_of_nat (n div 256) # word_of_nat n # bs)
           (b64decode rest)"
proof -
  have "n div 262144 < 64"
    using assms by (simp add: less_mult_imp_div_less)
  then show ?thesis
    by (simp add: b64_index_char b64_char_not_pad sextets_of_24)
qed

lemma decode_pad1:
  assumes "n < 262144"
  shows "b64decode [b64_char (n div 4096), b64_char (n div 64 mod 64), b64_char (n mod 64), CHR ''=''] =
         Some [word_of_nat (n div 4 div 256), word_of_nat (n div 4)]"
proof -
  have "n div 4096 < 64"
    using assms by (simp add: less_mult_imp_div_less)
  then show ?thesis
    by (simp add: b64_index_char b64_char_not_pad sextets_of_18 Let_def)
qed

lemma decode_pad2:
  assumes "n < 4096"
  shows "b64decode [b64_char (n div 64), b64_char (n mod 64), CHR ''='', CHR ''=''] =
         Some [word_of_nat (n div 16)]"
proof -
  have "n div 64 < 64"
    using assms by (simp add: less_mult_imp_div_less)
  then show ?thesis
    by (simp add: b64_index_char)
qed

lemma b64decode_b64encode: "b64decode (b64encode bs) = Some bs"
proof (induction bs rule: b64encode.induct)
  case 1
  show ?case by simp
next
  case (2 a)
  have lt: "unat a * 16 < 4096"
    using unat_byte_less [of a] by simp
  have "b64decode (b64encode [a]) = Some [word_of_nat (unat a * 16 div 16)]"
    by (simp only: b64encode.simps Let_def decode_pad2 [OF lt])
  moreover have "(word_of_nat (unat a * 16 div 16) :: byte) = a"
    using decode_single [OF unat_byte_less [of a]]
    by (simp only: byte_word_eq)
  ultimately show ?case
    by (simp only:)
next
  case (3 a b)
  have lt: "(unat a * 256 + unat b) * 4 < 262144"
    using unat_byte_less [of a] unat_byte_less [of b] by simp
  have "b64decode (b64encode [a, b]) =
        Some [word_of_nat ((unat a * 256 + unat b) * 4 div 4 div 256),
              word_of_nat ((unat a * 256 + unat b) * 4 div 4)]"
    by (simp only: b64encode.simps Let_def decode_pad1 [OF lt])
  moreover have "(word_of_nat ((unat a * 256 + unat b) * 4 div 4 div 256) :: byte) = a"
    "(word_of_nat ((unat a * 256 + unat b) * 4 div 4) :: byte) = b"
    using decode_pair [OF unat_byte_less [of a] unat_byte_less [of b]]
    by (simp_all only: byte_word_eq)
  ultimately show ?case
    by (simp only:)
next
  case (4 a b c rest)
  let ?n = "unat a * 65536 + unat b * 256 + unat c"
  have lt: "?n < 16777216"
    using unat_byte_less [of a] unat_byte_less [of b] unat_byte_less [of c] by simp
  have "b64decode (b64encode (a # b # c # rest)) =
        map_option (\<lambda>bs. word_of_nat (?n div 65536) # word_of_nat (?n div 256) # word_of_nat ?n # bs)
          (b64decode (b64encode rest))"
    by (simp only: b64encode.simps Let_def append.simps decode_quad [OF lt])
  also have "\<dots> = Some (word_of_nat (?n div 65536) # word_of_nat (?n div 256) # word_of_nat ?n # rest)"
    by (simp only: "4.IH" option.map)
  finally have "b64decode (b64encode (a # b # c # rest)) =
      Some (word_of_nat (?n div 65536) # word_of_nat (?n div 256) # word_of_nat ?n # rest)" .
  moreover have "(word_of_nat (?n div 65536) :: byte) = a" "(word_of_nat (?n div 256) :: byte) = b"
    "(word_of_nat ?n :: byte) = c"
    using decode_triple [OF unat_byte_less [of a] unat_byte_less [of b] unat_byte_less [of c]]
    by (simp_all only: byte_word_eq)
  ultimately show ?case
    by (simp only:)
qed

subsection \<open>Reading a list of events\<close>

lemma remote_requests_append: "remote_requests (xs @ ys) = remote_requests xs @ remote_requests ys"
  by (induction xs rule: remote_requests.induct) simp_all

lemma http_posts_append: "http_posts (xs @ ys) = http_posts xs @ http_posts ys"
  by (induction xs rule: http_posts.induct) simp_all

lemma errors_shown_append: "errors_shown (xs @ ys) = errors_shown xs @ errors_shown ys"
  by (induction xs rule: errors_shown.induct) simp_all

subsection \<open>The request loop of the client library\<close>

lemma request_loop_sendings:
  "i < snd (request_loop post k i) \<and> snd (request_loop post k i) \<le> Suc (i + k)"
proof (induction k arbitrary: i)
  case 0
  show ?case
    by (cases "post i") simp_all
next
  case (Suc k)
  show ?case
  proof (cases "post i")
    case (RetryableError e)
    with Suc [of "Suc i"] show ?thesis
      by simp
  qed simp_all
qed

lemma request_loop_answered:
  assumes "post i = Response r"
  shows "request_loop post k i = (Inr r, Suc i)"
  using assms by (cases k) simp_all

lemma request_loop_final:
  assumes "post i = FinalError e"
  shows "request_loop post k i = (Inl e, Suc i)"
  using assms by (cases k) simp_all

lemma request_loop_unreachable:
  assumes "\<And>j. post j = RetryableError e"
  shows "request_loop post k i = (Inl e, Suc (i + k))"
  using assms by (induction k arbitrary: i) simp_all

lemma transmissions_bounds:
  "1 \<le> transmissions env client req" "transmissions env client req \<le> Suc (max_retries client)"
  using request_loop_sendings [of 0 "http_post env client req" "max_retries client"]
  by (simp_all add: transmissions_def)

lemma call_events_simps:
  "remote_requests (call_events env client req) = [req]"
  "http_posts (call_events env client req) = replicate (transmissions env client req) req"
  "errors_shown (call_events env client req) = []"
  "set (call_events env client req) = {RemoteCall client req, HttpPost client req}"
proof -
  have r: "remote_requests (replicate n (HttpPost client req)) = []" for n
    by (induction n) simp_all
  have h: "http_posts (replicate n (HttpPost client req)) = replicate n req" for n
    by (induction n) simp_all
  have e: "errors_shown (replicate n (HttpPost client req)) = []" for n
    by (induction n) simp_all
  show "remote_requests (call_events env client req) = [req]"
    by (simp add: call_events_def r)
  show "http_posts (call_events env client req) = replicate (transmissions env client req) req"
    by (simp add: call_events_def h)
  show "errors_shown (call_events env client req) = []"
    by (simp add: call_events_def e)
  show "set (call_events env client req) = {RemoteCall client req, HttpPost client req}"
    using transmissions_bounds(1) [of env client req]
    by (auto simp: call_events_def)
qed

subsection \<open>The calls of the analysis client, case by case\<close>

lemma startswith_error_derives: "derives_Exception (startswith_error v)"
  by (cases v) simp_all

lemma analyze_not_str:
  assumes "\<And>s. mime_type \<noteq> PyStr s"
  shows "analyze_lease_document env client file_bytes mime_type =
         (Inr PyNone,
          [StError (''An error occurred during analysis: '' @ exc_str (startswith_error mime_type))])"
proof (cases mime_type)
  case (PyStr s)
  with assms show ?thesis by blast
qed (simp_all add: analyze_lease_document_def analyze_try_def)

lemma analyze_not_image:
  assumes "\<not> prefix ''image/'' m"
  shows "analyze_lease_document env client file_bytes (PyStr m) = (Inr (PyStr guidance), [])"
  using assms by (simp add: analyze_lease_document_def analyze_try_def)

lemma b64encode_value_cases:
  obtains (bytes) bs where "file_bytes = PyBytes bs" "b64encode_value file_bytes = Inr (b64encode bs)"
  | (other) e where "b64encode_value file_bytes = Inl e" "derives_Exception e" "\<And>bs. file_bytes \<noteq> PyBytes bs"
  by (cases file_bytes) simp_all

lemma analyze_not_bytes:
  assumes "prefix ''image/'' m" and "b64encode_value file_bytes = Inl e" and "derives_Exception e"
  shows "analyze_lease_document env client file_bytes (PyStr m) =
         (Inr PyNone, [StError (''An error occurred during analysis: '' @ exc_str e)])"
  using assms by (simp add: analyze_lease_document_def analyze_try_def)

lemma analyze_image_raises:
  assumes "prefix ''image/'' m"
    and "chat_completions_create env client (build_request m (b64encode bs)) = Inl e"
    and "derives_Exception e"
  shows "analyze_lease_document env client (PyBytes bs) (PyStr m) =
         (Inr PyNone,
          call_events env client (build_request m (b64encode bs)) @ [StError (''An error occurred during analysis: '' @ exc_str e)])"
  using assms by (simp add: analyze_lease_document_def analyze_try_def)

lemma analyze_image_escapes:
  assumes "prefix ''image/'' m"
    and "chat_completions_create env client (build_request m (b64encode bs)) = Inl e"
    and "\<not> derives_Exception e"
  shows "analyze_lease_document env client (PyBytes bs) (PyStr m) =
         (Inl e, call_events env client (build_request m (b64encode bs)))"
  using assms by (simp add: analyze_lease_document_def analyze_try_def)

lemma first_content_cases:
  obtains (empty) e where "first_content response = Inl e" "derives_Exception e"
  | (none) "first_content response = Inr PyNone"
  | (str) s where "first_content response = Inr (PyStr s)"
proof (cases response)
  case (ChatCompletion cs)
  show ?thesis
  proof (cases cs)
    case Nil
    with ChatCompletion show ?thesis
      using empty by simp
  next
    case (Cons c cs')
    with ChatCompletion show ?thesis
      using none str by (cases "message_content (message c)") simp_all
  qed
qed

lemma analyze_image_returns:
  assumes "prefix ''image/'' m"
    and "chat_completions_create env client (build_request m (b64encode bs)) = Inr response"
  shows "analyze_lease_document env client (PyBytes bs) (PyStr m) =
         (case first_content response of
            Inl e \<Rightarrow>
              (Inr PyNone,
               call_events env client (build_request m (b64encode bs)) @ [StError (''An error occurred during analysis: '' @ exc_str e)])
          | Inr v \<Rightarrow> (Inr v, call_events env client (build_request m (b64encode bs))))"
proof (cases response rule: first_content_cases)
  case (empty e)
  with assms show ?thesis
    by (simp add: analyze_lease_document_def analyze_try_def)
next
  case none
  with assms show ?thesis
    by (simp add: analyze_lease_document_def analyze_try_def)
next
  case (str s)
  with assms show ?thesis
    by (simp add: analyze_lease_document_def analyze_try_def)
qed

lemma analyze_image_requests:
  assumes "prefix ''image/'' m"
  shows "remote_requests (snd (analyze_lease_document env client (PyBytes bs) (PyStr m))) =
         [build_request m (b64encode bs)]"
proof (cases "chat_completions_create env client (build_request m (b64encode bs))")
  case (Inl e)
  with assms show ?thesis
    by (cases "derives_Exception e")
      (simp_all add: analyze_image_raises analyze_image_escapes remote_requests_append
        call_events_simps)
next
  case (Inr response)
  with assms show ?thesis
    by (simp add: analyze_image_returns remote_requests_append call_events_simps
        split: sum.splits)
qed

text \<open>
  Every call falls in one of three classes: no request is sent and the result is the
  guidance or \<^verbatim>\<open>None\<close> after a reported error; or the content type is an image type, the
  data are bytes, and the call is the one of the lemmas above.
\<close>

lemma analyze_cases:
  obtains (guidance) "analyze_lease_document env client file_bytes mime_type = (Inr (PyStr guidance), [])"
  | (rejected) msg where
      "analyze_lease_document env client file_bytes mime_type = (Inr PyNone, [StError msg])"
  | (image) m bs where "mime_type = PyStr m" "file_bytes = PyBytes bs" "prefix ''image/'' m"
proof (cases mime_type)
  case (PyStr m)
  show ?thesis
  proof (cases "prefix ''image/'' m")
    case False
    then show ?thesis
      using PyStr guidance by (simp add: analyze_not_image)
  next
    case True
    show ?thesis
    proof (cases file_bytes rule: b64encode_value_cases)
      case (bytes bs)
      from PyStr bytes(1) True show ?thesis by (rule image)
    next
      case (other e)
      with PyStr True show ?thesis
        using rejected by (simp add: analyze_not_bytes)
    qed
  qed
qed (use rejected in \<open>simp_all add: analyze_not_str\<close>)

lemma analyze_image_cases:
  assumes "prefix ''image/'' m"
  obtains (escapes) e where "\<not> derives_Exception e"
      "analyze_lease_document env client (PyBytes bs) (PyStr m) =
       (Inl e, call_events env client (build_request m (b64encode bs)))"
  | (failed) msg where
      "analyze_lease_document env client (PyBytes bs) (PyStr m) =
       (Inr PyNone, call_events env client (build_request m (b64encode bs)) @ [StError msg])"
  | (none)
      "analyze_lease_document env client (PyBytes bs) (PyStr m) =
       (Inr PyNone, call_events env client (build_request m (b64encode bs)))"
  | (str) s where
      "analyze_lease_document env client (PyBytes bs) (PyStr m) =
       (Inr (PyStr s), call_events env client (build_request m (b64encode bs)))"
proof (cases "chat_completions_create env client (build_request m (b64encode bs))")
  case (Inl e)
  with assms show ?thesis
    using escapes [of e] failed
    by (cases "derives_Exception e") (simp_all add: analyze_image_raises analyze_image_escapes)
next
  case (Inr response)
  show ?thesis
  proof (cases response rule: first_content_cases)
    case (empty e)
    with assms Inr show ?thesis using failed by (simp add: analyze_image_returns)
  next
    case none
    with assms Inr show ?thesis using that(3) by (simp add: analyze_image_returns)
  next
    case (str s)
    with assms Inr show ?thesis using that(4) by (simp add: analyze_image_returns)
  qed
qed

lemma analyze_events:
  assumes "ev \<in> set (snd (analyze_lease_document env client file_bytes mime_type))"
  shows "(\<exists>req. ev = RemoteCall client req) \<or> (\<exists>req. ev = HttpPost client req)
       \<or> (\<exists>msg. ev = StError msg)"
proof (rule analyze_cases [where env = env and client = client
      and file_bytes = file_bytes and mime_type = mime_type])
  fix m bs
  assume *: "mime_type = PyStr m" "file_bytes = PyBytes bs" and img: "prefix ''image/'' m"
  from img show ?thesis
    by (rule analyze_image_cases [where env = env and client = client and bs = bs])
      (use assms * in \<open>auto simp: call_events_simps\<close>)
qed (use assms in auto)

subsection \<open>The page, case by case\<close>

lemma input_widget_cases:
  obtains (uploader) "input_widget env = (StFileUploader ''Choose an image file'' [''jpg'', ''jpeg'', ''png''], file_uploader env)"
  | (camera) "input_widget env = (StCameraInput ''Take a picture of the lease page'', camera_input env)"
  by (cases "radio env = ''Upload an Image File''") (simp_all add: input_widget_def)

lemma main_no_upload:
  assumes "input_widget env = (w, None)"
  shows "main env client = (Inr (), page_header @ [w])"
  using assms by (simp add: main_def)

lemma main_undecodable:
  assumes "input_widget env = (w, Some f)"
    and "image_open env (getvalue f) = Inl e" and "derives_Exception e"
  shows "main env client =
         (Inr (),
          page_header @
          [w, StError ''Could not process the uploaded file. Please ensure it is a valid image.''])"
  using assms
  by (simp add: main_def process_uploaded_file_def Image_open_def seek_def)

lemma main_decoder_escapes:
  assumes "input_widget env = (w, Some f)"
    and "image_open env (getvalue f) = Inl e" and "\<not> derives_Exception e"
  shows "main env client = (Inl e, page_header @ [w])"
  using assms
  by (simp add: main_def process_uploaded_file_def Image_open_def seek_def)

lemma main_image_raises:
  assumes "input_widget env = (w, Some f)"
    and "image_open env (getvalue f) = Inr img"
    and "st_image env img = Some e"
  shows "main env client = (Inl e, page_header @ [w])"
  using assms
  by (simp add: main_def process_uploaded_file_def Image_open_def seek_def)

lemma main_decoded:
  assumes "input_widget env = (w, Some f)"
    and "image_open env (getvalue f) = Inr img"
    and "st_image env img = None"
    and "analyze_lease_document env client (PyBytes (getvalue f)) (PyStr (file_type f)) = (res, tr)"
  shows "main env client =
         (case res of
            Inl e \<Rightarrow>
              (Inl e,
               page_header @
               [w, StImage img ''Image to be Analyzed'' True,
                StSpinner ''Analyzing your lease document... This may take a moment.''] @ tr)
          | Inr analysis_result \<Rightarrow>
              (Inr (),
               page_header @
               [w, StImage img ''Image to be Analyzed'' True,
                StSpinner ''Analyzing your lease document... This may take a moment.''] @ tr @
               show_analysis analysis_result))"
  using assms
  by (simp add: main_def process_uploaded_file_def Image_open_def seek_def split: sum.splits)

lemma input_widget_event:
  assumes "input_widget env = (w, uploaded)"
  shows "remote_requests (w # es) = remote_requests es"
    and "errors_shown (w # es) = errors_shown es"
    and "\<not> is_result_event w"
    and "w \<noteq> RemoteCall c req"
    and "w \<noteq> HttpPost c req"
    and "http_posts (w # es) = http_posts es"
proof -
  have "remote_requests (w # es) = remote_requests es \<and> errors_shown (w # es) = errors_shown es
      \<and> \<not> is_result_event w \<and> w \<noteq> RemoteCall c req \<and> w \<noteq> HttpPost c req
      \<and> http_posts (w # es) = http_posts es"
    by (rule input_widget_cases [of env]) (use assms in auto)
  then show "remote_requests (w # es) = remote_requests es"
    and "errors_shown (w # es) = errors_shown es"
    and "\<not> is_result_event w"
    and "w \<noteq> RemoteCall c req"
    and "w \<noteq> HttpPost c req"
    and "http_posts (w # es) = http_posts es"
    by simp_all
qed

lemma page_header_events:
  "remote_requests page_header = []" "errors_shown page_header = []"
  "\<not> list_ex is_result_event page_header" "RemoteCall c req \<notin> set page_header"
  "HttpPost c req \<notin> set page_header" "http_posts page_header = []"
  by (simp_all add: page_header_def)

lemma show_analysis_events:
  "remote_requests (show_analysis r) = []" "errors_shown (show_analysis r) = []"
  "RemoteCall c req \<notin> set (show_analysis r)"
  "list_ex is_result_event (show_analysis r) = py_truthy r"
  "HttpPost c req \<notin> set (show_analysis r)" "http_posts (show_analysis r) = []"
  by (simp_all add: show_analysis_def)

text \<open>Every call and every sending in a run of \<^verbatim>\<open>main\<close> is by the client it was given.\<close>

lemma main_remote_calls:
  assumes "ev \<in> set (snd (main env client))" and "ev = RemoteCall c req \<or> ev = HttpPost c req"
  shows "c = client"
proof -
  obtain w uploaded where wu: "input_widget env = (w, uploaded)"
    by (cases "input_widget env")
  have nw: "ev \<noteq> w" "ev \<notin> set page_header"
    using assms(2) input_widget_event(4,5) [OF wu] page_header_events(4,5) by auto
  show ?thesis
  proof (cases uploaded)
    case None
    with wu assms(1) nw show ?thesis
      by (simp add: main_no_upload)
  next
    case (Some f)
    with wu have wu': "input_widget env = (w, Some f)"
      by simp
    show ?thesis
    proof (cases "image_open env (getvalue f)")
      case (Inl e)
      with wu' assms nw show ?thesis
        by (cases "derives_Exception e") (auto simp: main_undecodable main_decoder_escapes)
    next
      case (Inr img)
      show ?thesis
      proof (cases "st_image env img")
        case (Some e)
        with wu' Inr assms(1) nw show ?thesis
          by (simp add: main_image_raises)
      next
        case None
        obtain res tr
          where a: "analyze_lease_document env client (PyBytes (getvalue f)) (PyStr (file_type f)) = (res, tr)"
          by (cases "analyze_lease_document env client (PyBytes (getvalue f)) (PyStr (file_type f))")
        have "ev \<notin> set (show_analysis r)" for r
          using assms(2) show_analysis_events(3,5) by auto
        with assms nw have "ev \<in> set tr"
          by (cases res) (auto simp: main_decoded [OF wu' Inr None a])
        with a analyze_events [of ev env client "PyBytes (getvalue f)" "PyStr (file_type f)"] assms(2)
        show ?thesis
          by auto
      qed
    qed
  qed
qed

lemma analyze_no_result_event:
  "filter is_result_event (snd (analyze_lease_document env client file_bytes mime_type)) = []"
proof -
  have "\<not> is_result_event ev"
    if "ev \<in> set (snd (analyze_lease_document env client file_bytes mime_type))" for ev
    using analyze_events [OF that] by auto
  then show ?thesis
    by (simp add: filter_empty_conv)
qed

lemma analyze_str_no_error:
  assumes "analyze_lease_document env client file_bytes mime_type = (Inr (PyStr s), tr)"
  shows "errors_shown tr = []"
proof (rule analyze_cases [where env = env and client = client
      and file_bytes = file_bytes and mime_type = mime_type])
  fix m bs
  assume *: "mime_type = PyStr m" "file_bytes = PyBytes bs" and img: "prefix ''image/'' m"
  from img show ?thesis
    by (rule analyze_image_cases [where env = env and client = client and bs = bs])
      (use assms * in \<open>auto simp: call_events_simps\<close>)
qed (use assms in auto)

text \<open>The run of the whole script on the sample environment.\<close>

lemma max_retries_OpenAI: "max_retries (OpenAI key) = 2" "api_key (OpenAI key) = key"
  by (simp_all add: OpenAI_def)

lemma script_sample_env:
  "script sample_env =
   (Completed,
    page_header @
    [StFileUploader ''Choose an image file'' [''jpg'', ''jpeg'', ''png''],
     StImage (PILImage ''PNG'' (10, 10)) ''Image to be Analyzed'' True,
     StSpinner ''Analyzing your lease document... This may take a moment.'',
     RemoteCall sample_client (build_request ''image/png'' (b64encode (getvalue png_upload))),
     HttpPost sample_client (build_request ''image/png'' (b64encode (getvalue png_upload))),
     StSuccess ''Analysis Complete'',
     StMarkdown (PyStr no_clauses_reply)])"
proof -
  let ?req = "build_request (file_type png_upload) (b64encode (getvalue png_upload))"
  have w: "input_widget sample_env =
      (StFileUploader ''Choose an image file'' [''jpg'', ''jpeg'', ''png''], Some png_upload)"
    by (simp add: input_widget_def sample_env_def)
  have d: "image_open sample_env (getvalue png_upload) = Inr (PILImage ''PNG'' (10, 10))"
    by (simp add: sample_env_def png_upload_def sample_open_def png_signature_def)
  have i: "st_image sample_env (PILImage ''PNG'' (10, 10)) = None"
    by (simp add: sample_env_def showing_image_def)
  have k: "os_getenv sample_env ''OPENAI_API_KEY'' = Some ''sk-test''"
    by (simp add: sample_env_def sample_getenv_def)
  have p: "prefix ''image/'' (file_type png_upload)"
    by (simp add: png_upload_def)
  have l: "request_loop (http_post sample_env sample_client ?req) (max_retries sample_client) 0 =
           (Inr (ChatCompletion [Choice (CompletionMessage (Some no_clauses_reply))]), 1)"
    by (simp add: request_loop_answered sample_env_def answering_post_def)
  have c: "chat_completions_create sample_env sample_client ?req =
           Inr (ChatCompletion [Choice (CompletionMessage (Some no_clauses_reply))])"
    by (simp add: chat_completions_create_def l)
  have e: "call_events sample_env sample_client ?req =
           [RemoteCall sample_client ?req, HttpPost sample_client ?req]"
    by (simp add: call_events_def transmissions_def l)
  have n: "no_clauses_reply \<noteq> []"
    by (simp add: no_clauses_reply_def)
  have t: "file_type png_upload = ''image/png''"
    by (simp add: png_upload_def)
  have a: "analyze_lease_document sample_env sample_client (PyBytes (getvalue png_upload))
             (PyStr (file_type png_upload)) =
           (Inr (PyStr no_clauses_reply), [RemoteCall sample_client ?req, HttpPost sample_client ?req])"
    using analyze_image_returns [OF p c] by (simp add: e)
  have "main sample_env sample_client =
    (Inr (),
     page_header @
     [StFileUploader ''Choose an image file'' [''jpg'', ''jpeg'', ''png''],
      StImage (PILImage ''PNG'' (10, 10)) ''Image to be Analyzed'' True,
      StSpinner ''Analyzing your lease document... This may take a moment.'',
      RemoteCall sample_client ?req, HttpPost sample_client ?req,
      StSuccess ''Analysis Complete'',
      StMarkdown (PyStr no_clauses_reply)])"
    using main_decoded [OF w d i a] n
    by (simp add: show_analysis_def)
  then show ?thesis
    by (simp add: script_def k t sample_client_def)
qed

lemma analyze_image_posts:
  assumes "prefix ''image/'' m"
  shows "http_posts (snd (analyze_lease_document env client (PyBytes bs) (PyStr m))) =
         replicate (transmissions env client (build_request m (b64encode bs)))
           (build_request m (b64encode bs))"
proof (cases "chat_completions_create env client (build_request m (b64encode bs))")
  case (Inl e)
  with assms show ?thesis
    by (cases "derives_Exception e")
      (simp_all add: analyze_image_raises analyze_image_escapes http_posts_append
        call_events_simps)
next
  case (Inr response)
  with assms show ?thesis
    by (simp add: analyze_image_returns http_posts_append call_events_simps
        split: sum.splits)
qed

text \<open>The sample services, as the client library sees them.\<close>

lemma failing_env_create:
  "chat_completions_create failing_env client req =
     Inl (PyExc True ''APIConnectionError'' ''Connection error.'')"
  "transmissions failing_env client req = Suc (max_retries client)"
  by (simp_all add: chat_completions_create_def transmissions_def failing_env_def sample_env_def
      request_loop_unreachable [of _ "PyExc True ''APIConnectionError'' ''Connection error.''"]
      failing_post_def)

lemma refusing_env_create:
  "chat_completions_create refusing_env client req =
     Inl (PyExc True ''AuthenticationError'' ''Error code: 401'')"
  "transmissions refusing_env client req = 1"
  by (simp_all add: chat_completions_create_def transmissions_def refusing_env_def sample_env_def
      request_loop_final [of _ _ "PyExc True ''AuthenticationError'' ''Error code: 401''"]
      refusing_post_def)

lemma interrupted_env_create:
  "chat_completions_create interrupted_env client req =
     Inl (PyExc False ''KeyboardInterrupt'' [])"
  "transmissions interrupted_env client req = 1"
  by (simp_all add: chat_completions_create_def transmissions_def interrupted_env_def
      sample_env_def request_loop_final [of _ _ "PyExc False ''KeyboardInterrupt'' []"]
      interrupted_post_def)

lemma silent_env_create:
  "chat_completions_create silent_env client req =
     Inr (ChatCompletion [Choice (CompletionMessage (Some []))])"
  "transmissions silent_env client req = 1"
  by (simp_all add: chat_completions_create_def transmissions_def silent_env_def sample_env_def
      request_loop_answered [of _ _ "ChatCompletion [Choice (CompletionMessage (Some []))]"]
      silent_post_def)

lemma sample_env_create:
  "chat_completions_create sample_env client req =
     Inr (ChatCompletion [Choice (CompletionMessage (Some no_clauses_reply))])"
  "transmissions sample_env client req = 1"
  by (simp_all add: chat_completions_create_def transmissions_def sample_env_def
      request_loop_answered
        [of _ _ "ChatCompletion [Choice (CompletionMessage (Some no_clauses_reply))]"]
      answering_post_def)

lemma max_retries_sample_client: "max_retries sample_client = 2"
  by (simp add: sample_client_def max_retries_OpenAI)

subsection \<open>The analysis client\<close>

text \<open>
  C2. For every declared content type, a string, that does not start with \<^verbatim>\<open>image/\<close>,
  \<^verbatim>\<open>analyze_lease_document\<close> returns the fixed guidance string as a normal value, whatever
  the data, and sends no request: its list of events is empty.
\<close>

theorem non_image_type_gets_guidance:
  assumes "\<not> prefix ''image/'' m"
  shows "analyze_lease_document env client file_bytes (PyStr m) = (Inr (PyStr guidance), [])
       \<and> remote_requests (snd (analyze_lease_document env client file_bytes (PyStr m))) = []"
  using assms by (simp add: analyze_not_image)

theorem non_image_type_gets_guidance_witness:
  "\<not> prefix ''image/'' ''text/plain''
   \<and> analyze_lease_document sample_env sample_client (PyBytes [104, 105]) (PyStr ''text/plain'')
       = (Inr (PyStr guidance), [])
   \<and> remote_requests
         (snd (analyze_lease_document sample_env sample_client (PyBytes [104, 105])
                 (PyStr ''text/plain''))) = []"
proof -
  have h: "\<not> prefix ''image/'' ''text/plain''"
    by simp
  from non_image_type_gets_guidance [OF h, of sample_env sample_client "PyBytes [104, 105]"] h
  show ?thesis by simp
qed

text \<open>
  C3 as it is stated does not hold. The script builds its client without
  \<^verbatim>\<open>max_retries\<close>, so the client library sends a request that fails to connect again:
  with a service that cannot be reached, one call of \<^verbatim>\<open>analyze_lease_document\<close> on an
  image sends the request three times.
\<close>

theorem unreachable_service_gets_three_requests:
  "prefix ''image/'' ''image/png''
   \<and> http_posts
         (snd (analyze_lease_document failing_env sample_client (PyBytes [77, 97, 110, 255])
                 (PyStr ''image/png'')))
       = [build_request ''image/png'' (b64encode [77, 97, 110, 255]),
          build_request ''image/png'' (b64encode [77, 97, 110, 255]),
          build_request ''image/png'' (b64encode [77, 97, 110, 255])]"
proof -
  have "prefix ''image/'' ''image/png''"
    by simp
  then show ?thesis
    by (simp add: analyze_image_posts failing_env_create max_retries_sample_client
        numeral_3_eq_3)
qed

text \<open>
  C3, amended. For every byte sequence passed with a content type that starts with
  \<^verbatim>\<open>image/\<close>, \<^verbatim>\<open>analyze_lease_document\<close> calls the completion service exactly once,
  whatever the service does. The client library sends the request of that call at least
  once and at most one time more than the client's retries, which is three for the client
  that the script builds. The request of the call and every request sent carry exactly one
  image URL, whose payload, decoded from base64, is the byte sequence that was passed.
\<close>

theorem one_call_with_the_bytes:
  assumes "prefix ''image/'' m"
  shows "length (remote_requests (snd (analyze_lease_document env client (PyBytes bs) (PyStr m)))) = 1
       \<and> map (decoded_images m)
           (remote_requests (snd (analyze_lease_document env client (PyBytes bs) (PyStr m))))
         = [[Some bs]]
       \<and> 1 \<le> length (http_posts (snd (analyze_lease_document env client (PyBytes bs) (PyStr m))))
       \<and> length (http_posts (snd (analyze_lease_document env client (PyBytes bs) (PyStr m))))
         \<le> Suc (max_retries client)
       \<and> length (http_posts
                  (snd (analyze_lease_document env (OpenAI key) (PyBytes bs) (PyStr m)))) \<le> 3
       \<and> set (map (decoded_images m)
                (http_posts (snd (analyze_lease_document env client (PyBytes bs) (PyStr m)))))
         = {[Some bs]}"
proof -
  have d: "decoded_images m (build_request m (b64encode bs)) = [Some bs]"
    by (simp add: decoded_images_def image_urls_def build_request_def data_url_payload_def
        data_url_def b64decode_b64encode)
  have p: "0 < transmissions env client (build_request m (b64encode bs))"
    using transmissions_bounds(1) [of env client "build_request m (b64encode bs)"] by simp
  have "length (http_posts (snd (analyze_lease_document env (OpenAI key) (PyBytes bs) (PyStr m))))
      \<le> 3"
    using assms transmissions_bounds(2) [of env "OpenAI key" "build_request m (b64encode bs)"]
    by (simp add: analyze_image_posts max_retries_OpenAI)
  with assms d p show ?thesis
    using transmissions_bounds [of env client "build_request m (b64encode bs)"]
    by (simp add: analyze_image_requests analyze_image_posts)
qed

theorem one_call_with_the_bytes_witness:
  "length (remote_requests
         (snd (analyze_lease_document failing_env sample_client (PyBytes [77, 97, 110, 255])
                 (PyStr ''image/png'')))) = 1
   \<and> map (decoded_images ''image/png'')
         (remote_requests
           (snd (analyze_lease_document failing_env sample_client (PyBytes [77, 97, 110, 255])
                   (PyStr ''image/png''))))
       = [[Some [77, 97, 110, 255]]]
   \<and> length (http_posts
         (snd (analyze_lease_document failing_env sample_client (PyBytes [77, 97, 110, 255])
                 (PyStr ''image/png'')))) = 3
   \<and> set (map (decoded_images ''image/png'')
         (http_posts
           (snd (analyze_lease_document failing_env sample_client (PyBytes [77, 97, 110, 255])
                   (PyStr ''image/png'')))))
       = {[Some [77, 97, 110, 255]]}"
proof -
  have h: "prefix ''image/'' ''image/png''"
    by simp
  have n: "length (http_posts
         (snd (analyze_lease_document failing_env sample_client (PyBytes [77, 97, 110, 255])
                 (PyStr ''image/png'')))) = 3"
    by (simp add: analyze_image_posts failing_env_create max_retries_sample_client)
  from one_call_with_the_bytes [OF h, of failing_env sample_client "[77, 97, 110, 255]"] n
  show ?thesis by simp
qed

text \<open>
  C4 as it is stated does not hold in its last part. With a service that cannot be
  reached the exception is caught and reported and \<^verbatim>\<open>None\<close> is returned, but before the
  exception was raised, the request had been sent three times: the client library had
  tried again twice.
\<close>

theorem connection_error_is_retried:
  "chat_completions_create failing_env sample_client
     (build_request ''image/png'' (b64encode [1, 2, 3]))
   = Inl (PyExc True ''APIConnectionError'' ''Connection error.'')
   \<and> analyze_lease_document failing_env sample_client (PyBytes [1, 2, 3]) (PyStr ''image/png'') =
       (Inr PyNone,
        [RemoteCall sample_client (build_request ''image/png'' (b64encode [1, 2, 3])),
         HttpPost sample_client (build_request ''image/png'' (b64encode [1, 2, 3])),
         HttpPost sample_client (build_request ''image/png'' (b64encode [1, 2, 3])),
         HttpPost sample_client (build_request ''image/png'' (b64encode [1, 2, 3])),
         StError ''An error occurred during analysis: Connection error.''])"
proof -
  have h1: "prefix ''image/'' ''image/png''"
    by simp
  have h3: "derives_Exception (PyExc True ''APIConnectionError'' ''Connection error.'')"
    by simp
  from analyze_image_raises [OF h1 failing_env_create(1) h3, of sample_client "[1, 2, 3]"]
  show ?thesis
    by (simp add: failing_env_create call_events_def max_retries_sample_client numeral_3_eq_3)
qed

text \<open>
  C4, amended. When the content type is an image type and the call of the completion
  service raises an exception whose class derives from \<^verbatim>\<open>Exception\<close> (every error of the
  client library: connection, timeout, authentication, status),
  \<^verbatim>\<open>analyze_lease_document\<close> returns \<^verbatim>\<open>None\<close> as a normal value; its events are the one
  call, the sendings of that call and one \<^verbatim>\<open>st.error\<close> with the exception's message. The
  function does not call the service again. The client library has sent the request at
  least once and at most one time more than the client's retries; when the first sending
  fails for good, as with a refused credential, it has sent it once.
\<close>

theorem remote_failure_is_caught:
  assumes "prefix ''image/'' m"
    and "chat_completions_create env client (build_request m (b64encode bs)) = Inl e"
    and "derives_Exception e"
  shows "analyze_lease_document env client (PyBytes bs) (PyStr m) =
         (Inr PyNone,
          RemoteCall client (build_request m (b64encode bs)) #
          replicate (transmissions env client (build_request m (b64encode bs)))
            (HttpPost client (build_request m (b64encode bs))) @
          [StError (''An error occurred during analysis: '' @ exc_str e)])
       \<and> 1 \<le> transmissions env client (build_request m (b64encode bs))
       \<and> transmissions env client (build_request m (b64encode bs)) \<le> Suc (max_retries client)
       \<and> (\<forall>x. http_post env client (build_request m (b64encode bs)) 0 = FinalError x \<longrightarrow>
            transmissions env client (build_request m (b64encode bs)) = 1)"
  using analyze_image_raises [OF assms] transmissions_bounds [of env client "build_request m (b64encode bs)"]
  by (simp add: call_events_def transmissions_def request_loop_final)

theorem remote_failure_is_caught_witness:
  "analyze_lease_document failing_env sample_client (PyBytes [1, 2, 3]) (PyStr ''image/png'') =
     (Inr PyNone,
      [RemoteCall sample_client (build_request ''image/png'' (b64encode [1, 2, 3])),
       HttpPost sample_client (build_request ''image/png'' (b64encode [1, 2, 3])),
       HttpPost sample_client (build_request ''image/png'' (b64encode [1, 2, 3])),
       HttpPost sample_client (build_request ''image/png'' (b64encode [1, 2, 3])),
       StError ''An error occurred during analysis: Connection error.''])
   \<and> analyze_lease_document refusing_env sample_client (PyBytes [1, 2, 3]) (PyStr ''image/png'') =
     (Inr PyNone,
      [RemoteCall sample_client (build_request ''image/png'' (b64encode [1, 2, 3])),
       HttpPost sample_client (build_request ''image/png'' (b64encode [1, 2, 3])),
       StError ''An error occurred during analysis: Error code: 401''])"
proof -
  have h1: "prefix ''image/'' ''image/png''"
    by simp
  have h3: "derives_Exception (PyExc True ''APIConnectionError'' ''Connection error.'')"
    "derives_Exception (PyExc True ''AuthenticationError'' ''Error code: 401'')"
    by simp_all
  have f: "http_post refusing_env sample_client (build_request ''image/png'' (b64encode [1, 2, 3])) 0
      = FinalError (PyExc True ''AuthenticationError'' ''Error code: 401'')"
    by (simp add: refusing_env_def sample_env_def refusing_post_def)
  from remote_failure_is_caught [OF h1 failing_env_create(1) h3(1), of sample_client "[1, 2, 3]"]
    remote_failure_is_caught [OF h1 refusing_env_create(1) h3(2), of sample_client "[1, 2, 3]"] f
  show ?thesis
    by (simp add: failing_env_create max_retries_sample_client numeral_3_eq_3)
qed

text \<open>
  C7. For an image content type the single image URL of the request that is passed to
  the completion service, and of every request that is sent, is \<^verbatim>\<open>data:\<close>, the content
  type, \<^verbatim>\<open>;base64,\<close> and the base64 encoding of the bytes; for \<^verbatim>\<open>image/png\<close> it starts with
  \<^verbatim>\<open>data:image/png;base64,\<close>.
\<close>

theorem image_url_is_data_uri:
  assumes "prefix ''image/'' m"
  shows "map image_urls
           (remote_requests (snd (analyze_lease_document env client (PyBytes bs) (PyStr m))))
         = [[''data:'' @ m @ '';base64,'' @ b64encode bs]]
       \<and> map image_urls
           (remote_requests
             (snd (analyze_lease_document env client (PyBytes bs) (PyStr ''image/png''))))
         = [[''data:image/png;base64,'' @ b64encode bs]]
       \<and> set (map image_urls
                (http_posts (snd (analyze_lease_document env client (PyBytes bs) (PyStr m)))))
         = {[''data:'' @ m @ '';base64,'' @ b64encode bs]}
       \<and> set (map image_urls
                (http_posts
                  (snd (analyze_lease_document env client (PyBytes bs) (PyStr ''image/png'')))))
         = {[''data:image/png;base64,'' @ b64encode bs]}"
proof -
  have "prefix ''image/'' ''image/png''"
    by simp
  moreover have "0 < transmissions env client req" for req
    using transmissions_bounds(1) [of env client req] by simp
  ultimately show ?thesis
    using assms
    by (simp add: analyze_image_requests analyze_image_posts image_urls_def build_request_def
        data_url_def)
qed

theorem image_url_is_data_uri_witness:
  "prefix ''image/'' ''image/jpeg''
   \<and> map image_urls
         (remote_requests
           (snd (analyze_lease_document sample_env sample_client (PyBytes [77, 97, 110])
                   (PyStr ''image/jpeg''))))
       = [[''data:image/jpeg;base64,TWFu'']]
   \<and> map image_urls
         (remote_requests
           (snd (analyze_lease_document sample_env sample_client (PyBytes [77, 97, 110])
                   (PyStr ''image/png''))))
       = [[''data:image/png;base64,TWFu'']]
   \<and> set (map image_urls
         (http_posts
           (snd (analyze_lease_document sample_env sample_client (PyBytes [77, 97, 110])
                   (PyStr ''image/png'')))))
       = {[''data:image/png;base64,TWFu'']}"
proof -
  have h: "prefix ''image/'' ''image/jpeg''"
    by simp
  have e: "b64encode [77, 97, 110] = ''TWFu''"
    by (simp add: b64_char_def b64_alphabet_def)
  from image_url_is_data_uri [OF h, of sample_env sample_client "[77, 97, 110]"] h e
  show ?thesis by simp
qed

text \<open>
  C8. The request that the client builds sets \<^verbatim>\<open>max_tokens\<close> to 2000 whatever the content
  type and the encoded image, and so does every request that a call of
  \<^verbatim>\<open>analyze_lease_document\<close> passes to the completion service and every request that is
  sent, for all arguments.
\<close>

theorem requests_cap_output_length:
  "max_tokens (build_request m base64_image) = 2000
   \<and> (\<forall>req \<in> set (remote_requests (snd (analyze_lease_document env client file_bytes mime_type))).
         max_tokens req = 2000)
   \<and> (\<forall>req \<in> set (http_posts (snd (analyze_lease_document env client file_bytes mime_type))).
         max_tokens req = 2000)"
proof -
  have "(\<forall>req \<in> set (remote_requests (snd (analyze_lease_document env client file_bytes mime_type))).
         max_tokens req = 2000)
      \<and> (\<forall>req \<in> set (http_posts (snd (analyze_lease_document env client file_bytes mime_type))).
         max_tokens req = 2000)"
  proof (rule analyze_cases [where env = env and client = client
      and file_bytes = file_bytes and mime_type = mime_type])
    fix m bs
    assume "mime_type = PyStr m" "file_bytes = PyBytes bs" "prefix ''image/'' m"
    then show ?thesis
      by (simp add: analyze_image_requests analyze_image_posts build_request_def)
  qed simp_all
  then show ?thesis
    by (simp add: build_request_def)
qed

theorem requests_cap_output_length_witness:
  "remote_requests
     (snd (analyze_lease_document sample_env sample_client (PyBytes [1, 2, 3]) (PyStr ''image/png'')))
   = [build_request ''image/png'' (b64encode [1, 2, 3])]
   \<and> http_posts
     (snd (analyze_lease_document sample_env sample_client (PyBytes [1, 2, 3]) (PyStr ''image/png'')))
   = [build_request ''image/png'' (b64encode [1, 2, 3])]
   \<and> max_tokens (build_request ''image/png'' (b64encode [1, 2, 3])) = 2000"
proof -
  have r: "remote_requests
     (snd (analyze_lease_document sample_env sample_client (PyBytes [1, 2, 3]) (PyStr ''image/png'')))
   = [build_request ''image/png'' (b64encode [1, 2, 3])]"
    by (simp add: analyze_image_requests)
  have p: "http_posts
     (snd (analyze_lease_document sample_env sample_client (PyBytes [1, 2, 3]) (PyStr ''image/png'')))
   = [build_request ''image/png'' (b64encode [1, 2, 3])]"
    by (simp add: analyze_image_posts sample_env_create)
  from requests_cap_output_length
    [of "''image/png''" "b64encode [1, 2, 3]" sample_env sample_client "PyBytes [1, 2, 3]"
      "PyStr ''image/png''"] r p
  show ?thesis by simp
qed

text \<open>
  C9. For all arguments, among them a content type that is \<^verbatim>\<open>None\<close>, bytes or a number
  and data that are not bytes, \<^verbatim>\<open>analyze_lease_document\<close> returns normally, and what it
  returns is \<^verbatim>\<open>None\<close> or a string; the service is taken to raise only exceptions that
  derive from \<^verbatim>\<open>Exception\<close>.
\<close>

theorem analyze_never_raises:
  assumes "\<forall>c req e. chat_completions_create env c req = Inl e \<longrightarrow> derives_Exception e"
  shows "\<exists>v. fst (analyze_lease_document env client file_bytes mime_type) = Inr v
            \<and> (v = PyNone \<or> (\<exists>s. v = PyStr s))"
proof (rule analyze_cases [where env = env and client = client
      and file_bytes = file_bytes and mime_type = mime_type])
  fix m bs
  assume *: "mime_type = PyStr m" "file_bytes = PyBytes bs" and img: "prefix ''image/'' m"
  show ?thesis
  proof (cases "chat_completions_create env client (build_request m (b64encode bs))")
    case (Inl e)
    with assms have "derives_Exception e"
      by blast
    with img Inl show ?thesis
      by (simp add: * analyze_image_raises)
  next
    case (Inr response)
    with img show ?thesis
      by (cases response rule: first_content_cases) (simp_all add: * analyze_image_returns)
  qed
qed simp_all

theorem analyze_never_raises_witness:
  "(\<exists>v. fst (analyze_lease_document failing_env sample_client (PyBytes [1, 2, 3]) PyNone) = Inr v
        \<and> (v = PyNone \<or> (\<exists>s. v = PyStr s)))
   \<and> (\<exists>v. fst (analyze_lease_document failing_env sample_client (PyInt 7) (PyStr ''image/png''))
            = Inr v
          \<and> (v = PyNone \<or> (\<exists>s. v = PyStr s)))
   \<and> (\<exists>v. fst (analyze_lease_document failing_env sample_client (PyBytes [1, 2, 3])
                 (PyStr ''image/png'')) = Inr v
          \<and> (v = PyNone \<or> (\<exists>s. v = PyStr s)))"
proof -
  have h: "\<forall>c req e. chat_completions_create failing_env c req = Inl e \<longrightarrow> derives_Exception e"
    by (simp add: failing_env_create)
  from analyze_never_raises [OF h, of sample_client "PyBytes [1, 2, 3]" PyNone]
    analyze_never_raises [OF h, of sample_client "PyInt 7" "PyStr ''image/png''"]
    analyze_never_raises [OF h, of sample_client "PyBytes [1, 2, 3]" "PyStr ''image/png''"]
  show ?thesis by blast
qed

text \<open>
  The hypothesis on the service is needed: \<^verbatim>\<open>except Exception\<close> lets an exception pass
  whose class does not derive from \<^verbatim>\<open>Exception\<close>, such as an interrupt from the keyboard
  during the request.
\<close>

lemma exception_outside_Exception_escapes:
  "analyze_lease_document interrupted_env sample_client (PyBytes [1, 2, 3]) (PyStr ''image/png'') =
   (Inl (PyExc False ''KeyboardInterrupt'' []),
    [RemoteCall sample_client (build_request ''image/png'' (b64encode [1, 2, 3])),
     HttpPost sample_client (build_request ''image/png'' (b64encode [1, 2, 3]))])"
  by (simp add: analyze_image_escapes interrupted_env_create call_events_def)

subsection \<open>Normalising the upload\<close>

text \<open>
  C5. For every uploaded file, whatever its bytes, its declared type and its read
  position, \<^verbatim>\<open>process_uploaded_file\<close> returns normally with the bytes and the declared type
  as they are; the preview is the decoded image when the decoder accepts the bytes and is
  absent when the decoder raises. The decoder is taken to raise only exceptions that
  derive from \<^verbatim>\<open>Exception\<close>, as the image library's do.
\<close>

theorem upload_is_returned_unchanged:
  assumes "\<forall>e. image_open env (getvalue f) = Inl e \<longrightarrow> derives_Exception e"
  shows "process_uploaded_file env f =
         Inr (getvalue f, file_type f,
              case image_open env (getvalue f) of Inl e \<Rightarrow> None | Inr img \<Rightarrow> Some img)"
  using assms
  by (simp add: process_uploaded_file_def Image_open_def seek_def split: sum.splits)

theorem upload_is_returned_unchanged_witness:
  "process_uploaded_file corrupted_env corrupted_upload =
   Inr ([0xDE, 0xAD, 0xBE, 0xEF, 0x01], ''image/png'', None)"
proof -
  have h: "\<forall>e. image_open corrupted_env (getvalue corrupted_upload) = Inl e \<longrightarrow> derives_Exception e"
    by (simp add: corrupted_env_def sample_env_def corrupted_upload_def sample_open_def
        png_signature_def)
  from upload_is_returned_unchanged [OF h]
  show ?thesis
    by (simp add: corrupted_env_def sample_env_def corrupted_upload_def sample_open_def
        png_signature_def)
qed

subsection \<open>The page and the script\<close>

text \<open>
  C1 as it is stated does not hold. On the upload of random bytes declared as
  \<^verbatim>\<open>image/png\<close>, the decoder fails, the content type starts with \<^verbatim>\<open>image/\<close>, and the
  script ends after the message that the file could not be processed, without a call of
  the completion service and without a request sent.
\<close>

theorem corrupted_png_is_not_analysed:
  "image_open corrupted_env (getvalue corrupted_upload) =
     Inl (PyExc True ''UnidentifiedImageError'' ''cannot identify image file'')
   \<and> prefix ''image/'' (file_type corrupted_upload)
   \<and> script corrupted_env =
       (Completed,
        page_header @
        [StFileUploader ''Choose an image file'' [''jpg'', ''jpeg'', ''png''],
         StError ''Could not process the uploaded file. Please ensure it is a valid image.''])
   \<and> remote_requests (snd (script corrupted_env)) = []
   \<and> http_posts (snd (script corrupted_env)) = []"
proof -
  have w: "input_widget corrupted_env =
      (StFileUploader ''Choose an image file'' [''jpg'', ''jpeg'', ''png''], Some corrupted_upload)"
    by (simp add: input_widget_def corrupted_env_def sample_env_def)
  have d: "image_open corrupted_env (getvalue corrupted_upload) =
     Inl (PyExc True ''UnidentifiedImageError'' ''cannot identify image file'')"
    by (simp add: corrupted_env_def sample_env_def corrupted_upload_def sample_open_def
        png_signature_def)
  have k: "os_getenv corrupted_env ''OPENAI_API_KEY'' = Some ''sk-test''"
    by (simp add: corrupted_env_def sample_env_def sample_getenv_def)
  have s: "script corrupted_env =
       (Completed,
        page_header @
        [StFileUploader ''Choose an image file'' [''jpg'', ''jpeg'', ''png''],
         StError ''Could not process the uploaded file. Please ensure it is a valid image.''])"
    by (simp add: script_def k main_undecodable [OF w d])
  have "remote_requests (snd (script corrupted_env)) = []"
    "http_posts (snd (script corrupted_env)) = []"
    by (simp_all add: s remote_requests_append http_posts_append page_header_events)
  with d s show ?thesis
    by (simp add: corrupted_upload_def)
qed

text \<open>
  C1, amended. When the decoder fails on the uploaded bytes, \<^verbatim>\<open>main\<close> shows the message
  that the file could not be processed and returns; it does not call the analysis client,
  and no request is sent, whatever the declared content type. The test of the content type
  does not depend on decoding inside the analysis client only: called with the same bytes
  and an image content type, it makes its one call of the completion service, and the
  request is sent.
\<close>

theorem undecodable_upload_is_not_analysed:
  assumes "input_widget env = (w, Some f)"
    and "image_open env (getvalue f) = Inl e" and "derives_Exception e"
  shows "main env client =
         (Inr (),
          page_header @
          [w, StError ''Could not process the uploaded file. Please ensure it is a valid image.''])
       \<and> remote_requests (snd (main env client)) = []
       \<and> http_posts (snd (main env client)) = []
       \<and> (prefix ''image/'' (file_type f) \<longrightarrow>
            remote_requests
              (snd (analyze_lease_document env client (PyBytes (getvalue f)) (PyStr (file_type f))))
            = [build_request (file_type f) (b64encode (getvalue f))]
          \<and> http_posts
              (snd (analyze_lease_document env client (PyBytes (getvalue f)) (PyStr (file_type f))))
            \<noteq> [])"
proof -
  note m = main_undecodable [OF assms, of client]
  have "remote_requests (snd (main env client)) = []" "http_posts (snd (main env client)) = []"
    by (simp_all add: m remote_requests_append http_posts_append page_header_events
        input_widget_event(1,6) [OF assms(1)])
  moreover have "0 < transmissions env client req" for req
    using transmissions_bounds(1) [of env client req] by simp
  ultimately show ?thesis
    using m by (simp add: analyze_image_requests analyze_image_posts)
qed

theorem undecodable_upload_is_not_analysed_witness:
  "input_widget corrupted_env =
     (StFileUploader ''Choose an image file'' [''jpg'', ''jpeg'', ''png''], Some corrupted_upload)
   \<and> image_open corrupted_env (getvalue corrupted_upload) =
       Inl (PyExc True ''UnidentifiedImageError'' ''cannot identify image file'')
   \<and> derives_Exception (PyExc True ''UnidentifiedImageError'' ''cannot identify image file'')
   \<and> prefix ''image/'' (file_type corrupted_upload)
   \<and> main corrupted_env sample_client =
       (Inr (),
        page_header @
        [StFileUploader ''Choose an image file'' [''jpg'', ''jpeg'', ''png''],
         StError ''Could not process the uploaded file. Please ensure it is a valid image.''])
   \<and> remote_requests (snd (main corrupted_env sample_client)) = []
   \<and> http_posts (snd (main corrupted_env sample_client)) = []
   \<and> remote_requests
         (snd (analyze_lease_document corrupted_env sample_client
                 (PyBytes (getvalue corrupted_upload)) (PyStr (file_type corrupted_upload))))
       = [build_request (file_type corrupted_upload) (b64encode (getvalue corrupted_upload))]
   \<and> http_posts
         (snd (analyze_lease_document corrupted_env sample_client
                 (PyBytes (getvalue corrupted_upload)) (PyStr (file_type corrupted_upload))))
       \<noteq> []"
proof -
  have w: "input_widget corrupted_env =
      (StFileUploader ''Choose an image file'' [''jpg'', ''jpeg'', ''png''], Some corrupted_upload)"
    by (simp add: input_widget_def corrupted_env_def sample_env_def)
  have d: "image_open corrupted_env (getvalue corrupted_upload) =
     Inl (PyExc True ''UnidentifiedImageError'' ''cannot identify image file'')"
    by (simp add: corrupted_env_def sample_env_def corrupted_upload_def sample_open_def
        png_signature_def)
  have x: "derives_Exception (PyExc True ''UnidentifiedImageError'' ''cannot identify image file'')"
    by simp
  have p: "prefix ''image/'' (file_type corrupted_upload)"
    by (simp add: corrupted_upload_def)
  from undecodable_upload_is_not_analysed [OF w d x, of sample_client] w d x p
  show ?thesis by blast
qed

text \<open>
  What \<^verbatim>\<open>st.image\<close> raises leaves \<^verbatim>\<open>main\<close> and ends the script: the call is outside any
  \<^verbatim>\<open>try\<close>. No analysis is made then.
\<close>

lemma truncated_image_ends_script:
  "script truncated_env =
   (Uncaught (PyExc True ''OSError'' ''image file is truncated''),
    page_header @ [StFileUploader ''Choose an image file'' [''jpg'', ''jpeg'', ''png'']])"
proof -
  have w: "input_widget truncated_env =
      (StFileUploader ''Choose an image file'' [''jpg'', ''jpeg'', ''png''], Some png_upload)"
    by (simp add: input_widget_def truncated_env_def sample_env_def)
  have d: "image_open truncated_env (getvalue png_upload) = Inr (PILImage ''PNG'' (10, 10))"
    by (simp add: truncated_env_def sample_env_def png_upload_def sample_open_def
        png_signature_def)
  have i: "st_image truncated_env (PILImage ''PNG'' (10, 10)) =
      Some (PyExc True ''OSError'' ''image file is truncated'')"
    by (simp add: truncated_env_def sample_env_def truncated_image_def)
  have k: "os_getenv truncated_env ''OPENAI_API_KEY'' = Some ''sk-test''"
    by (simp add: truncated_env_def sample_env_def sample_getenv_def)
  show ?thesis
    by (simp add: script_def k main_image_raises [OF w d i])
qed

text \<open>
  C10 as it is stated does not hold in its last part. With a service that answers with
  the empty string the client returns the empty string and the page shows no error; with
  a service that cannot be reached the client returns \<^verbatim>\<open>None\<close> and the page shows the
  error message of the client. The two pages differ.
\<close>

theorem failed_call_differs_from_empty_completion:
  "fst (analyze_lease_document silent_env sample_client (PyBytes (getvalue png_upload))
          (PyStr (file_type png_upload))) = Inr (PyStr [])
   \<and> fst (analyze_lease_document failing_env sample_client (PyBytes (getvalue png_upload))
          (PyStr (file_type png_upload))) = Inr PyNone
   \<and> errors_shown (snd (main silent_env sample_client)) = []
   \<and> errors_shown (snd (main failing_env sample_client)) =
       [''An error occurred during analysis: Connection error.'']"
proof -
  let ?req = "build_request (file_type png_upload) (b64encode (getvalue png_upload))"
  have p: "prefix ''image/'' (file_type png_upload)"
    by (simp add: png_upload_def)
  have x: "derives_Exception (PyExc True ''APIConnectionError'' ''Connection error.'')"
    by simp
  have a1: "analyze_lease_document silent_env sample_client (PyBytes (getvalue png_upload))
          (PyStr (file_type png_upload)) = (Inr (PyStr []), call_events silent_env sample_client ?req)"
    using analyze_image_returns [OF p silent_env_create(1), of sample_client] by simp
  have a2: "analyze_lease_document failing_env sample_client (PyBytes (getvalue png_upload))
          (PyStr (file_type png_upload)) =
        (Inr PyNone,
         call_events failing_env sample_client ?req @
         [StError ''An error occurred during analysis: Connection error.''])"
    using analyze_image_raises [OF p failing_env_create(1) x, of sample_client] by simp
  have w1: "input_widget silent_env =
      (StFileUploader ''Choose an image file'' [''jpg'', ''jpeg'', ''png''], Some png_upload)"
    by (simp add: input_widget_def silent_env_def sample_env_def)
  have w2: "input_widget failing_env =
      (StFileUploader ''Choose an image file'' [''jpg'', ''jpeg'', ''png''], Some png_upload)"
    by (simp add: input_widget_def failing_env_def sample_env_def)
  have d1: "image_open silent_env (getvalue png_upload) = Inr (PILImage ''PNG'' (10, 10))"
    by (simp add: silent_env_def sample_env_def png_upload_def sample_open_def png_signature_def)
  have d2: "image_open failing_env (getvalue png_upload) = Inr (PILImage ''PNG'' (10, 10))"
    by (simp add: failing_env_def sample_env_def png_upload_def sample_open_def png_signature_def)
  have i1: "st_image silent_env (PILImage ''PNG'' (10, 10)) = None"
    by (simp add: silent_env_def sample_env_def showing_image_def)
  have i2: "st_image failing_env (PILImage ''PNG'' (10, 10)) = None"
    by (simp add: failing_env_def sample_env_def showing_image_def)
  have "errors_shown (snd (main silent_env sample_client)) = []"
    by (simp add: main_decoded [OF w1 d1 i1 a1] errors_shown_append page_header_events
        call_events_simps show_analysis_def)
  moreover have "errors_shown (snd (main failing_env sample_client)) =
       [''An error occurred during analysis: Connection error.'']"
    by (simp add: main_decoded [OF w2 d2 i2 a2] errors_shown_append page_header_events
        call_events_simps show_analysis_def)
  ultimately show ?thesis
    by (simp add: a1 a2)
qed

text \<open>
  C10, amended. After an upload that decodes and whose preview \<^verbatim>\<open>st.image\<close> shows,
  \<^verbatim>\<open>main\<close> returns normally, and after the events of the call of
  \<^verbatim>\<open>analyze_lease_document\<close> it shows the success message followed by the returned value
  exactly when that value is truthy; these are then the only success message and the only
  result on the page, and there is none when the value is not truthy. For the empty
  string the page shows no result, no success message and no error. For \<^verbatim>\<open>None\<close> the
  page shows no result and no success message either, and its errors are those that the
  call itself has shown, so a call that failed can be told from an empty completion.
\<close>

theorem falsy_result_shows_nothing:
  assumes "input_widget env = (w, Some f)"
    and "image_open env (getvalue f) = Inr img"
    and "st_image env img = None"
    and "analyze_lease_document env client (PyBytes (getvalue f)) (PyStr (file_type f)) = (Inr r, tr)"
  shows "main env client =
         (Inr (),
          page_header @
          [w, StImage img ''Image to be Analyzed'' True,
           StSpinner ''Analyzing your lease document... This may take a moment.''] @ tr @
          (if py_truthy r then [StSuccess ''Analysis Complete'', StMarkdown r] else []))
       \<and> filter is_result_event (snd (main env client)) =
          (if py_truthy r then [StSuccess ''Analysis Complete'', StMarkdown r] else [])
       \<and> (r = PyStr [] \<longrightarrow> errors_shown (snd (main env client)) = [])
       \<and> (r = PyNone \<longrightarrow> errors_shown (snd (main env client)) = errors_shown tr)"
proof -
  have m: "main env client =
         (Inr (),
          page_header @
          [w, StImage img ''Image to be Analyzed'' True,
           StSpinner ''Analyzing your lease document... This may take a moment.''] @ tr @
          (if py_truthy r then [StSuccess ''Analysis Complete'', StMarkdown r] else []))"
    using main_decoded [OF assms] by (simp add: show_analysis_def)
  have h: "filter is_result_event page_header = []"
    by (simp add: page_header_def)
  have t: "filter is_result_event tr = []"
    using analyze_no_result_event [of env client "PyBytes (getvalue f)" "PyStr (file_type f)"]
    by (simp add: assms(4))
  have 2: "filter is_result_event (snd (main env client)) =
          (if py_truthy r then [StSuccess ''Analysis Complete'', StMarkdown r] else [])"
    by (simp add: m h t input_widget_event(3) [OF assms(1)])
  have e: "errors_shown (snd (main env client)) = errors_shown tr"
    by (simp add: m errors_shown_append page_header_events input_widget_event(2) [OF assms(1)])
  have 3: "errors_shown (snd (main env client)) = []" if "r = PyStr []"
    using that assms(4) by (simp add: e analyze_str_no_error)
  from m 2 3 e show ?thesis
    by blast
qed

theorem falsy_result_shows_nothing_witness:
  "main silent_env sample_client =
     (Inr (),
      page_header @
      [StFileUploader ''Choose an image file'' [''jpg'', ''jpeg'', ''png''],
       StImage (PILImage ''PNG'' (10, 10)) ''Image to be Analyzed'' True,
       StSpinner ''Analyzing your lease document... This may take a moment.''] @
      [RemoteCall sample_client
         (build_request (file_type png_upload) (b64encode (getvalue png_upload))),
       HttpPost sample_client
         (build_request (file_type png_upload) (b64encode (getvalue png_upload)))])
   \<and> filter is_result_event (snd (main silent_env sample_client)) = []
   \<and> errors_shown (snd (main silent_env sample_client)) = []
   \<and> filter is_result_event (snd (main sample_env sample_client)) =
       [StSuccess ''Analysis Complete'', StMarkdown (PyStr no_clauses_reply)]"
proof -
  let ?req = "build_request (file_type png_upload) (b64encode (getvalue png_upload))"
  have p: "prefix ''image/'' (file_type png_upload)"
    by (simp add: png_upload_def)
  have w1: "input_widget silent_env =
      (StFileUploader ''Choose an image file'' [''jpg'', ''jpeg'', ''png''], Some png_upload)"
    by (simp add: input_widget_def silent_env_def sample_env_def)
  have d1: "image_open silent_env (getvalue png_upload) = Inr (PILImage ''PNG'' (10, 10))"
    by (simp add: silent_env_def sample_env_def png_upload_def sample_open_def png_signature_def)
  have i1: "st_image silent_env (PILImage ''PNG'' (10, 10)) = None"
    by (simp add: silent_env_def sample_env_def showing_image_def)
  have a1: "analyze_lease_document silent_env sample_client (PyBytes (getvalue png_upload))
          (PyStr (file_type png_upload)) =
        (Inr (PyStr []), [RemoteCall sample_client ?req, HttpPost sample_client ?req])"
    using analyze_image_returns [OF p silent_env_create(1), of sample_client]
    by (simp add: call_events_def silent_env_create)
  have w2: "input_widget sample_env =
      (StFileUploader ''Choose an image file'' [''jpg'', ''jpeg'', ''png''], Some png_upload)"
    by (simp add: input_widget_def sample_env_def)
  have d2: "image_open sample_env (getvalue png_upload) = Inr (PILImage ''PNG'' (10, 10))"
    by (simp add: sample_env_def png_upload_def sample_open_def png_signature_def)
  have i2: "st_image sample_env (PILImage ''PNG'' (10, 10)) = None"
    by (simp add: sample_env_def showing_image_def)
  have a2: "analyze_lease_document sample_env sample_client (PyBytes (getvalue png_upload))
          (PyStr (file_type png_upload)) =
        (Inr (PyStr no_clauses_reply), [RemoteCall sample_client ?req, HttpPost sample_client ?req])"
    using analyze_image_returns [OF p sample_env_create(1), of sample_client]
    by (simp add: call_events_def sample_env_create)
  have n: "py_truthy (PyStr no_clauses_reply)" "\<not> py_truthy (PyStr [])"
    by (simp_all add: no_clauses_reply_def)
  note r1 = falsy_result_shows_nothing [OF w1 d1 i1 a1]
  note r2 = falsy_result_shows_nothing [OF w2 d2 i2 a2]
  have c1: "main silent_env sample_client =
     (Inr (),
      page_header @
      [StFileUploader ''Choose an image file'' [''jpg'', ''jpeg'', ''png''],
       StImage (PILImage ''PNG'' (10, 10)) ''Image to be Analyzed'' True,
       StSpinner ''Analyzing your lease document... This may take a moment.''] @
      [RemoteCall sample_client ?req, HttpPost sample_client ?req])"
    using r1 [THEN conjunct1] n(2) by simp
  have c2: "filter is_result_event (snd (main silent_env sample_client)) = []"
    using r1 [THEN conjunct2, THEN conjunct1] n(2) by simp
  have c3: "errors_shown (snd (main silent_env sample_client)) = []"
    using r1 [THEN conjunct2, THEN conjunct2, THEN conjunct1] by simp
  have c4: "filter is_result_event (snd (main sample_env sample_client)) =
       [StSuccess ''Analysis Complete'', StMarkdown (PyStr no_clauses_reply)]"
    using r2 [THEN conjunct2, THEN conjunct1] n(1) by simp
  from c1 c2 c3 c4 show ?thesis
    by blast
qed

text \<open>
  C6. When the credential is not in the environment, or is empty, the script shows the
  configuration error and stops: these are all its events. Every call of the completion
  service and every request sent in a run of the script is by a client built from the
  credential of the environment, which is not empty.
\<close>

theorem missing_key_halts:
  "(os_getenv env ''OPENAI_API_KEY'' = None \<longrightarrow>
      script env = (Stopped, [StError key_missing_message]))
   \<and> (os_getenv env ''OPENAI_API_KEY'' = Some [] \<longrightarrow>
      script env = (Stopped, [StError key_missing_message]))
   \<and> (\<forall>c req. RemoteCall c req \<in> set (snd (script env)) \<longrightarrow>
         os_getenv env ''OPENAI_API_KEY'' = Some (api_key c) \<and> api_key c \<noteq> [])
   \<and> (\<forall>c req. HttpPost c req \<in> set (snd (script env)) \<longrightarrow>
         os_getenv env ''OPENAI_API_KEY'' = Some (api_key c) \<and> api_key c \<noteq> [])"
proof -
  have "os_getenv env ''OPENAI_API_KEY'' = Some (api_key c) \<and> api_key c \<noteq> []"
    if "ev \<in> set (snd (script env))" and "ev = RemoteCall c req \<or> ev = HttpPost c req"
    for ev c req
  proof (cases "os_getenv env ''OPENAI_API_KEY''")
    case None
    with that show ?thesis
      by (auto simp: script_def)
  next
    case (Some k)
    show ?thesis
    proof (cases "k = []")
      case True
      with Some that show ?thesis
        by (auto simp: script_def)
    next
      case False
      with Some that(1) have "ev \<in> set (snd (main env (OpenAI k)))"
        by (simp add: script_def split: prod.splits sum.splits)
      then have "c = OpenAI k"
        using that(2) by (rule main_remote_calls)
      with Some False show ?thesis
        by (simp add: max_retries_OpenAI)
    qed
  qed
  then show ?thesis
    by (simp add: script_def)
qed

theorem missing_key_halts_witness:
  "os_getenv no_key_env ''OPENAI_API_KEY'' = None
   \<and> script no_key_env = (Stopped, [StError key_missing_message])
   \<and> RemoteCall sample_client (build_request ''image/png'' (b64encode (getvalue png_upload)))
       \<in> set (snd (script sample_env))
   \<and> HttpPost sample_client (build_request ''image/png'' (b64encode (getvalue png_upload)))
       \<in> set (snd (script sample_env))
   \<and> os_getenv sample_env ''OPENAI_API_KEY'' = Some (api_key sample_client)
   \<and> api_key sample_client \<noteq> []"
proof -
  have h: "os_getenv no_key_env ''OPENAI_API_KEY'' = None"
    by (simp add: no_key_env_def sample_env_def empty_getenv_def)
  have r: "RemoteCall sample_client (build_request ''image/png'' (b64encode (getvalue png_upload)))
       \<in> set (snd (script sample_env))"
    "HttpPost sample_client (build_request ''image/png'' (b64encode (getvalue png_upload)))
       \<in> set (snd (script sample_env))"
    by (simp_all add: script_sample_env)
  from missing_key_halts [of no_key_env] missing_key_halts [of sample_env] h r
  show ?thesis by blast
qed

end
